theory Spec2Isabelle
  imports Main "HOL-Library.Word" "HOL-Library.Multiset"
begin

chapter \<open>The model\<close>

section \<open>Common types\<close>

text \<open>
  \<open>frame_id_t\<close> is a signed 32-bit integer in the sources. Frame ids are only compared,
  stored and used as indices, never computed with, so they are mathematical integers here.
  \<open>size_t\<close> is the unsigned 64-bit word: \<open>curr_size_--\<close> at zero wraps around.
\<close>

type_synonym frame_id_t = int
type_synonym size_t = "64 word"

text \<open>
  \<open>BUSTUB_ASSERT\<close> aborts the process with its message; erasing a list node through an
  iterator that does not point into the list is undefined behaviour; a constructor may
  throw \<open>NotImplementedException\<close>. All three are results.
\<close>

datatype error = AssertionFailed string | UndefinedBehaviour | NotImplementedException string

text \<open>\<open>static_cast<int>(replacer_size_)\<close>: the low 32 bits, read as a signed number.\<close>

definition static_cast_int :: "size_t \<Rightarrow> int" where
  "static_cast_int n = sint (ucast n :: 32 word)"

section \<open>LRU-K replacer (lru_k_replacer.cpp)\<close>

text \<open>
  A \<open>std::list<frame_id_t>\<close> whose nodes are referred to by iterators kept in a
  \<open>std::unordered_map\<close>. A node is (identity, frame); the identity is what an iterator
  holds. \<open>map[frame]\<close> on a missing key inserts a value-initialised (singular) iterator.
\<close>

datatype list_iterator = Singular | NodeAt nat

type_synonym frame_list = "(nat \<times> frame_id_t) list"

record LRUKReplacer =
  history_list :: frame_list
  history_map :: "frame_id_t \<rightharpoonup> list_iterator"
  cache_list :: frame_list
  cache_map :: "frame_id_t \<rightharpoonup> list_iterator"
  access_count :: "frame_id_t \<Rightarrow> size_t"
  is_evictable_map :: "frame_id_t \<Rightarrow> bool"
  curr_size :: size_t
  replacer_size :: size_t
  replacer_k :: size_t
  next_node :: nat

text \<open>The frames of a list, front to back.\<close>

definition frames_of :: "frame_list \<Rightarrow> frame_id_t list" where
  "frames_of xs = map snd xs"

text \<open>\<open>LRUKReplacer(num_frames, k)\<close>: empty lists and maps, all counters zero.\<close>

definition LRUKReplacer_new :: "size_t \<Rightarrow> size_t \<Rightarrow> LRUKReplacer" where
  "LRUKReplacer_new num_frames k =
     \<lparr>history_list = [], history_map = Map.empty, cache_list = [], cache_map = Map.empty,
      access_count = (\<lambda>_. 0), is_evictable_map = (\<lambda>_. False), curr_size = 0,
      replacer_size = num_frames, replacer_k = k, next_node = 0\<rparr>"

text \<open>\<open>m[frame]\<close> read as an iterator.\<close>

definition iterator_at :: "(frame_id_t \<rightharpoonup> list_iterator) \<Rightarrow> frame_id_t \<Rightarrow> list_iterator" where
  "iterator_at m frame = (case m frame of None \<Rightarrow> Singular | Some it \<Rightarrow> it)"

text \<open>\<open>list.erase(it)\<close>: defined only when \<open>it\<close> points to a node of the list.\<close>

definition list_erase :: "frame_list \<Rightarrow> list_iterator \<Rightarrow> error + frame_list" where
  "list_erase xs it =
     (case it of
        Singular \<Rightarrow> Inl UndefinedBehaviour
      | NodeAt n \<Rightarrow>
          if n \<in> fst ` set xs then Inr (filter (\<lambda>node. fst node \<noteq> n) xs)
          else Inl UndefinedBehaviour)"

text \<open>
  The loop \<open>for (it = list.rbegin(); it != list.rend(); it++)\<close> of \<open>Evict\<close>, run on the
  reversed list: the first frame from the back whose evictable flag is set.
\<close>

fun first_evictable :: "(frame_id_t \<Rightarrow> bool) \<Rightarrow> frame_list \<Rightarrow> frame_id_t option" where
  "first_evictable ev [] = None"
| "first_evictable ev (node # rest) =
     (if ev (snd node) then Some (snd node) else first_evictable ev rest)"

definition Evict :: "LRUKReplacer \<Rightarrow> error + (frame_id_t option \<times> LRUKReplacer)" where
  "Evict r =
     (if curr_size r \<le> 0 then Inr (None, r)
      else
        case first_evictable (is_evictable_map r) (rev (history_list r)) of
          Some frame \<Rightarrow>
            (case list_erase (history_list r) (iterator_at (history_map r) frame) of
               Inl e \<Rightarrow> Inl e
             | Inr h \<Rightarrow>
                 Inr (Some frame,
                   r\<lparr>access_count := (access_count r)(frame := 0),
                     history_list := h,
                     history_map := (history_map r)(frame := None),
                     curr_size := curr_size r - 1,
                     is_evictable_map := (is_evictable_map r)(frame := False)\<rparr>))
        | None \<Rightarrow>
            (case first_evictable (is_evictable_map r) (rev (cache_list r)) of
               Some frame \<Rightarrow>
                 (case list_erase (cache_list r) (iterator_at (cache_map r) frame) of
                    Inl e \<Rightarrow> Inl e
                  | Inr c \<Rightarrow>
                      Inr (Some frame,
                        r\<lparr>access_count := (access_count r)(frame := 0),
                          cache_list := c,
                          cache_map := (cache_map r)(frame := None),
                          curr_size := curr_size r - 1,
                          is_evictable_map := (is_evictable_map r)(frame := False)\<rparr>))
             | None \<Rightarrow> Inr (None, r)))"

definition RecordAccess :: "LRUKReplacer \<Rightarrow> frame_id_t \<Rightarrow> error + LRUKReplacer" where
  "RecordAccess r frame_id =
     (if \<not> frame_id < static_cast_int (replacer_size r)
      then Inl (AssertionFailed ''Frame ID out of range.'')
      else
        let r1 = r\<lparr>access_count := (access_count r)(frame_id := access_count r frame_id + 1)\<rparr>;
            fresh = next_node r1
        in
        if access_count r1 frame_id < replacer_k r1 then
          Inr (r1\<lparr>history_list := (fresh, frame_id) # history_list r1,
                  history_map := (history_map r1)(frame_id \<mapsto> NodeAt fresh),
                  next_node := Suc fresh\<rparr>)
        else if access_count r1 frame_id = replacer_k r1 then
          (case list_erase (history_list r1) (iterator_at (history_map r1) frame_id) of
             Inl e \<Rightarrow> Inl e
           | Inr h \<Rightarrow>
               Inr (r1\<lparr>history_list := h,
                       history_map := (history_map r1)(frame_id := None),
                       cache_list := (fresh, frame_id) # cache_list r1,
                       cache_map := (cache_map r1)(frame_id \<mapsto> NodeAt fresh),
                       next_node := Suc fresh\<rparr>))
        else
          (case (if cache_map r1 frame_id \<noteq> None
                 then list_erase (cache_list r1) (iterator_at (cache_map r1) frame_id)
                 else Inr (cache_list r1)) of
             Inl e \<Rightarrow> Inl e
           | Inr c \<Rightarrow>
               Inr (r1\<lparr>cache_list := (fresh, frame_id) # c,
                       cache_map := (cache_map r1)(frame_id \<mapsto> NodeAt fresh),
                       next_node := Suc fresh\<rparr>)))"

definition SetEvictable :: "LRUKReplacer \<Rightarrow> frame_id_t \<Rightarrow> bool \<Rightarrow> error + LRUKReplacer" where
  "SetEvictable r frame_id set_evictable =
     (if \<not> frame_id < static_cast_int (replacer_size r)
      then Inl (AssertionFailed ''Frame ID out of range.'')
      else if access_count r frame_id = 0 then Inr r
      else
        let r1 = (if is_evictable_map r frame_id \<and> \<not> set_evictable
                  then r\<lparr>curr_size := curr_size r - 1\<rparr> else r);
            r2 = (if \<not> is_evictable_map r1 frame_id \<and> set_evictable
                  then r1\<lparr>curr_size := curr_size r1 + 1\<rparr> else r1)
        in Inr (r2\<lparr>is_evictable_map := (is_evictable_map r2)(frame_id := set_evictable)\<rparr>))"

definition Remove :: "LRUKReplacer \<Rightarrow> frame_id_t \<Rightarrow> error + LRUKReplacer" where
  "Remove r frame_id =
     (if \<not> frame_id < static_cast_int (replacer_size r)
      then Inl (AssertionFailed ''Frame ID out of range.'')
      else if \<not> (\<not> is_evictable_map r frame_id)
      then Inl (AssertionFailed ''Frame ID is non-evictable.'')
      else if access_count r frame_id = 0 then Inr r
      else
        case (if access_count r frame_id \<ge> replacer_k r
              then (case list_erase (cache_list r) (iterator_at (cache_map r) frame_id) of
                      Inl e \<Rightarrow> Inl e
                    | Inr c \<Rightarrow> Inr (r\<lparr>cache_list := c, cache_map := (cache_map r)(frame_id := None)\<rparr>))
              else (case list_erase (history_list r) (iterator_at (history_map r) frame_id) of
                      Inl e \<Rightarrow> Inl e
                    | Inr h \<Rightarrow> Inr (r\<lparr>history_list := h, history_map := (history_map r)(frame_id := None)\<rparr>))) of
          Inl e \<Rightarrow> Inl e
        | Inr r1 \<Rightarrow>
            Inr (r1\<lparr>curr_size := curr_size r1 - 1,
                    access_count := (access_count r1)(frame_id := 0),
                    is_evictable_map := (is_evictable_map r1)(frame_id := False)\<rparr>))"

definition Size :: "LRUKReplacer \<Rightarrow> size_t" where
  "Size r = curr_size r"

text \<open>A sequence of calls, stopping at the first failure.\<close>

datatype replacer_op =
    OpRecordAccess frame_id_t
  | OpSetEvictable frame_id_t bool
  | OpEvict
  | OpRemove frame_id_t

fun replacer_step :: "LRUKReplacer \<Rightarrow> replacer_op \<Rightarrow> error + LRUKReplacer" where
  "replacer_step r (OpRecordAccess f) = RecordAccess r f"
| "replacer_step r (OpSetEvictable f b) = SetEvictable r f b"
| "replacer_step r OpEvict = (case Evict r of Inl e \<Rightarrow> Inl e | Inr res \<Rightarrow> Inr (snd res))"
| "replacer_step r (OpRemove f) = Remove r f"

fun replacer_run :: "LRUKReplacer \<Rightarrow> replacer_op list \<Rightarrow> error + LRUKReplacer" where
  "replacer_run r [] = Inr r"
| "replacer_run r (x # xs) =
     (case replacer_step r x of Inl e \<Rightarrow> Inl e | Inr r1 \<Rightarrow> replacer_run r1 xs)"

section \<open>Buffer pool manager (buffer_pool_manager.cpp)\<close>

text \<open>
  \<open>page_id_t\<close> is a signed 32-bit integer in the sources; page ids are compared, stored and
  incremented by \<open>AllocatePage\<close>, and are mathematical integers here. The class \<open>Page\<close>
  (\<open>storage/page/page.h\<close>, not among the sources) is the record of the fields the buffer
  pool reads and writes; \<open>ResetMemory\<close> zeroes the page's bytes.
\<close>

type_synonym page_id_t = int
type_synonym page_data = "8 word list"

definition INVALID_PAGE_ID :: page_id_t where
  "INVALID_PAGE_ID = - 1"

definition BUSTUB_PAGE_SIZE :: nat where
  "BUSTUB_PAGE_SIZE = 4096"

record Page =
  data :: page_data
  page_id :: page_id_t
  pin_count :: int
  is_dirty :: bool

definition ResetMemory :: "Page \<Rightarrow> Page" where
  "ResetMemory p = p\<lparr>data := replicate BUSTUB_PAGE_SIZE 0\<rparr>"

text \<open>
  The disk scheduler, as its callers see it: \<open>Schedule\<close> queues a request, the worker
  thread performs it against the disk manager (\<open>WritePage\<close> or \<open>ReadPage\<close>) and fulfils
  the promise, and \<open>future.get()\<close> waits for that. The log keeps both calls in order; a
  request carries the bytes written, or the bytes read.
\<close>

record DiskRequest =
  is_write :: bool
  request_data :: page_data
  request_page_id :: page_id_t

datatype io_event = Scheduled DiskRequest | FutureGet DiskRequest

record BufferPoolManager =
  pool_size :: nat
  pages :: "Page list"
  replacer :: LRUKReplacer
  free_list :: "frame_id_t list"
  page_table :: "page_id_t \<rightharpoonup> frame_id_t"
  next_page_id :: page_id_t
  disk :: "page_id_t \<Rightarrow> page_data"
  disk_log :: "io_event list"

text \<open>\<open>BufferPoolManager(pool_size, disk_manager, replacer_k)\<close> over a disk.\<close>

definition BufferPoolManager_new ::
  "nat \<Rightarrow> (page_id_t \<Rightarrow> page_data) \<Rightarrow> size_t \<Rightarrow> BufferPoolManager" where
  "BufferPoolManager_new n disk_manager k =
     \<lparr>pool_size = n,
      pages = replicate n
        \<lparr>data = replicate BUSTUB_PAGE_SIZE 0, page_id = INVALID_PAGE_ID, pin_count = 0,
         is_dirty = False\<rparr>,
      replacer = LRUKReplacer_new (of_nat n) k,
      free_list = map int [0..<n],
      page_table = Map.empty,
      next_page_id = 0,
      disk = disk_manager,
      disk_log = []\<rparr>"

text \<open>\<open>pages_[frame_id]\<close> is defined for the frames of the pool only.\<close>

definition valid_frame :: "BufferPoolManager \<Rightarrow> frame_id_t \<Rightarrow> bool" where
  "valid_frame bpm frame_id \<longleftrightarrow> 0 \<le> frame_id \<and> nat frame_id < length (pages bpm)"

definition page_at :: "BufferPoolManager \<Rightarrow> frame_id_t \<Rightarrow> Page" where
  "page_at bpm frame_id = pages bpm ! nat frame_id"

definition set_page :: "BufferPoolManager \<Rightarrow> frame_id_t \<Rightarrow> Page \<Rightarrow> BufferPoolManager" where
  "set_page bpm frame_id p = bpm\<lparr>pages := (pages bpm)[nat frame_id := p]\<rparr>"

text \<open>\<open>disk_scheduler_->Schedule(DiskRequest{true, data, page_id, promise})\<close>.\<close>

definition write_request :: "Page \<Rightarrow> DiskRequest" where
  "write_request p = \<lparr>is_write = True, request_data = data p, request_page_id = page_id p\<rparr>"

definition Schedule_write :: "BufferPoolManager \<Rightarrow> Page \<Rightarrow> BufferPoolManager" where
  "Schedule_write bpm p =
     bpm\<lparr>disk := (disk bpm)(page_id p := data p),
         disk_log := disk_log bpm @ [Scheduled (write_request p)]\<rparr>"

definition read_request :: "BufferPoolManager \<Rightarrow> page_id_t \<Rightarrow> DiskRequest" where
  "read_request bpm pid = \<lparr>is_write = False, request_data = disk bpm pid, request_page_id = pid\<rparr>"

definition future_get :: "BufferPoolManager \<Rightarrow> DiskRequest \<Rightarrow> BufferPoolManager" where
  "future_get bpm req = bpm\<lparr>disk_log := disk_log bpm @ [FutureGet req]\<rparr>"

text \<open>
  The block both \<open>NewPage\<close> and \<open>FetchPage\<close> run when the free list is empty: ask the
  replacer for a victim; if the victim's page is dirty, schedule its write and wait; erase
  the victim's page from the page table.
\<close>

definition evict_victim ::
  "BufferPoolManager \<Rightarrow> BufferPoolManager \<times> (error + frame_id_t option)" where
  "evict_victim bpm =
     (case Evict (replacer bpm) of
        Inl e \<Rightarrow> (bpm, Inl e)
      | Inr (None, r) \<Rightarrow> (bpm\<lparr>replacer := r\<rparr>, Inr None)
      | Inr (Some replacement_frame_id, r) \<Rightarrow>
          let bpm1 = bpm\<lparr>replacer := r\<rparr> in
          if \<not> valid_frame bpm1 replacement_frame_id then (bpm1, Inl UndefinedBehaviour)
          else
            let previous_page = page_at bpm1 replacement_frame_id;
                bpm2 = (if is_dirty previous_page
                        then future_get (Schedule_write bpm1 previous_page)
                               (write_request previous_page)
                        else bpm1)
            in (bpm2\<lparr>page_table := (page_table bpm2)(page_id previous_page := None)\<rparr>,
                Inr (Some replacement_frame_id)))"

text \<open>\<open>free_list_.front()\<close> and \<open>pop_front()\<close>, on a list known to be non-empty.\<close>

definition pop_free_list ::
  "BufferPoolManager \<Rightarrow> BufferPoolManager \<times> (error + frame_id_t option)" where
  "pop_free_list bpm =
     (bpm\<lparr>free_list := tl (free_list bpm)\<rparr>, Inr (Some (hd (free_list bpm))))"

text \<open>\<open>page_table_.insert(std::make_pair(page_id, frame_id))\<close> keeps an entry that exists.\<close>

definition page_table_insert ::
  "(page_id_t \<rightharpoonup> frame_id_t) \<Rightarrow> page_id_t \<Rightarrow> frame_id_t \<Rightarrow> (page_id_t \<rightharpoonup> frame_id_t)" where
  "page_table_insert m pid frame_id = (if m pid = None then m(pid \<mapsto> frame_id) else m)"

text \<open>
  \<open>replacer_->SetEvictable(frame, false); replacer_->RecordAccess(frame);
  pages_[frame].pin_count_++\<close>, the tail of both functions.
\<close>

definition pin_frame ::
  "BufferPoolManager \<Rightarrow> frame_id_t \<Rightarrow> BufferPoolManager \<times> (error + unit)" where
  "pin_frame bpm frame_id =
     (case SetEvictable (replacer bpm) frame_id False of
        Inl e \<Rightarrow> (bpm, Inl e)
      | Inr r1 \<Rightarrow>
          (case RecordAccess r1 frame_id of
             Inl e \<Rightarrow> (bpm\<lparr>replacer := r1\<rparr>, Inl e)
           | Inr r2 \<Rightarrow>
               (set_page (bpm\<lparr>replacer := r2\<rparr>) frame_id
                  ((page_at bpm frame_id)\<lparr>pin_count := pin_count (page_at bpm frame_id) + 1\<rparr>),
                Inr ())))"

text \<open>
  \<open>NewPage\<close>: the result is the new page id with the frame of the returned \<open>Page *\<close>, or
  \<open>None\<close> for \<open>nullptr\<close>. The pool is returned as it is when the call ends or aborts.
\<close>

definition NewPage ::
  "BufferPoolManager \<Rightarrow> BufferPoolManager \<times> (error + (page_id_t \<times> frame_id_t) option)" where
  "NewPage bpm =
     (case (if free_list bpm = [] then evict_victim bpm else pop_free_list bpm) of
        (bpm1, Inl e) \<Rightarrow> (bpm1, Inl e)
      | (bpm1, Inr None) \<Rightarrow> (bpm1, Inr None)
      | (bpm1, Inr (Some replacement_frame_id)) \<Rightarrow>
          if \<not> valid_frame bpm1 replacement_frame_id then (bpm1, Inl UndefinedBehaviour)
          else
            let new_page_id = next_page_id bpm1;
                bpm2 = bpm1\<lparr>next_page_id := next_page_id bpm1 + 1\<rparr>;
                bpm3 = set_page bpm2 replacement_frame_id
                         ((ResetMemory (page_at bpm2 replacement_frame_id))
                            \<lparr>pin_count := 0, is_dirty := False, page_id := new_page_id\<rparr>);
                bpm4 = bpm3\<lparr>page_table :=
                         page_table_insert (page_table bpm3) new_page_id replacement_frame_id\<rparr>
            in case pin_frame bpm4 replacement_frame_id of
                 (bpm5, Inl e) \<Rightarrow> (bpm5, Inl e)
               | (bpm5, Inr u) \<Rightarrow> (bpm5, Inr (Some (new_page_id, replacement_frame_id))))"

text \<open>
  \<open>FetchPage\<close>: a resident page is returned as it is. Otherwise a frame is taken as in
  \<open>NewPage\<close>, the read of the page is scheduled, and its future is awaited last.
\<close>

definition FetchPage ::
  "BufferPoolManager \<Rightarrow> page_id_t \<Rightarrow> BufferPoolManager \<times> (error + frame_id_t option)" where
  "FetchPage bpm pid =
     (case page_table bpm pid of
        Some frame_id \<Rightarrow> (bpm, Inr (Some frame_id))
      | None \<Rightarrow>
          (case (if free_list bpm \<noteq> [] then pop_free_list bpm else evict_victim bpm) of
             (bpm1, Inl e) \<Rightarrow> (bpm1, Inl e)
           | (bpm1, Inr None) \<Rightarrow> (bpm1, Inr None)
           | (bpm1, Inr (Some replacement_frame_id)) \<Rightarrow>
               if \<not> valid_frame bpm1 replacement_frame_id then (bpm1, Inl UndefinedBehaviour)
               else
                 let req = read_request bpm1 pid;
                     bpm2 = set_page bpm1 replacement_frame_id
                              ((ResetMemory (page_at bpm1 replacement_frame_id))
                                 \<lparr>pin_count := 0, is_dirty := False, page_id := pid\<rparr>);
                     bpm3 = set_page (bpm2\<lparr>disk_log := disk_log bpm2 @ [Scheduled req]\<rparr>)
                              replacement_frame_id
                              ((page_at bpm2 replacement_frame_id)\<lparr>data := request_data req\<rparr>);
                     bpm4 = bpm3\<lparr>page_table :=
                              page_table_insert (page_table bpm3) pid replacement_frame_id\<rparr>
                 in case pin_frame bpm4 replacement_frame_id of
                      (bpm5, Inl e) \<Rightarrow> (bpm5, Inl e)
                    | (bpm5, Inr u) \<Rightarrow> (future_get bpm5 req, Inr (Some replacement_frame_id))))"

definition UnpinPage ::
  "BufferPoolManager \<Rightarrow> page_id_t \<Rightarrow> bool \<Rightarrow> BufferPoolManager \<times> (error + bool)" where
  "UnpinPage bpm pid dirty =
     (case page_table bpm pid of
        None \<Rightarrow> (bpm, Inr False)
      | Some frame_id \<Rightarrow>
          if \<not> valid_frame bpm frame_id then (bpm, Inl UndefinedBehaviour)
          else if pin_count (page_at bpm frame_id) \<le> 0 then (bpm, Inr False)
          else
            let p1 = (page_at bpm frame_id)\<lparr>pin_count := pin_count (page_at bpm frame_id) - 1\<rparr>;
                bpm1 = set_page bpm frame_id p1
            in case (if pin_count p1 \<le> 0 then SetEvictable (replacer bpm1) frame_id True
                     else Inr (replacer bpm1)) of
                 Inl e \<Rightarrow> (bpm1, Inl e)
               | Inr r \<Rightarrow>
                   (set_page (bpm1\<lparr>replacer := r\<rparr>) frame_id
                      (if dirty then p1\<lparr>is_dirty := dirty\<rparr> else p1),
                    Inr True))"

text \<open>The events a call added to the disk log that belong to write requests.\<close>

definition is_write_event :: "io_event \<Rightarrow> bool" where
  "is_write_event ev = (case ev of Scheduled req \<Rightarrow> is_write req | FutureGet req \<Rightarrow> is_write req)"

definition new_write_events :: "BufferPoolManager \<Rightarrow> BufferPoolManager \<Rightarrow> io_event list" where
  "new_write_events before after =
     filter is_write_event (drop (length (disk_log before)) (disk_log after))"

text \<open>
  A pool of one frame with \<open>k = 2\<close> over an empty disk, after \<open>NewPage\<close> (page 0 in
  frame 0) and \<open>UnpinPage(0, dirty)\<close>: frame 0 is the only eviction candidate.
\<close>

definition example_pool :: "bool \<Rightarrow> BufferPoolManager" where
  "example_pool dirty = fst (UnpinPage (fst (NewPage (BufferPoolManager_new 1 (\<lambda>_. []) 2))) 0 dirty)"

section \<open>Page guards (page_guard.cpp)\<close>

text \<open>
  A guard's \<open>page_\<close> points to a frame of the pool; \<open>bpm_\<close> is the pool or null. What a
  guard does to the pool and to the page's latch is the sequence of calls it makes:
  \<open>UnpinPage_call f d\<close> is \<open>bpm_->UnpinPage(page_->GetPageId(), d)\<close> for the page in
  frame \<open>f\<close>, the others are the latch operations on that page.

  Modelled from the spec: the class declarations (\<open>page_guard.h\<close>) are not among the
  sources. A default-constructed guard holds nothing: null \<open>bpm_\<close> and \<open>page_\<close> and a
  clear dirty bit, the state in which \<open>Drop\<close> and the move constructor leave a guard
  ("then nulls the handle").
\<close>

datatype guard_call =
    UnpinPage_call frame_id_t bool
  | RLatch_call frame_id_t
  | RUnlatch_call frame_id_t
  | WLatch_call frame_id_t
  | WUnlatch_call frame_id_t

record BasicPageGuard =
  guard_bpm :: bool
  guard_page :: "frame_id_t option"
  guard_is_dirty :: bool

definition BasicPageGuard_default :: BasicPageGuard where
  "BasicPageGuard_default = \<lparr>guard_bpm = False, guard_page = None, guard_is_dirty = False\<rparr>"

datatype ReadPageGuard = ReadPageGuard BasicPageGuard

datatype WritePageGuard = WritePageGuard BasicPageGuard

definition BasicPageGuard_Drop :: "BasicPageGuard \<Rightarrow> error + BasicPageGuard \<times> guard_call list" where
  "BasicPageGuard_Drop g =
     (case guard_page g of
        Some page \<Rightarrow>
          if \<not> guard_bpm g then Inl UndefinedBehaviour
          else Inr (BasicPageGuard_default, [UnpinPage_call page (guard_is_dirty g)])
      | None \<Rightarrow> Inr (BasicPageGuard_default, []))"

text \<open>
  \<open>ReadPageGuard::ReadPageGuard(BufferPoolManager *bpm, Page *page) {}\<close> and the same
  for \<open>WritePageGuard\<close>: the body is empty and there is no member initialiser, so the
  inner \<open>guard_\<close> is default-constructed and both arguments are dropped.
\<close>

definition ReadPageGuard_new :: "bool \<Rightarrow> frame_id_t \<Rightarrow> ReadPageGuard" where
  "ReadPageGuard_new bpm page = ReadPageGuard BasicPageGuard_default"

definition WritePageGuard_new :: "bool \<Rightarrow> frame_id_t \<Rightarrow> WritePageGuard" where
  "WritePageGuard_new bpm page = WritePageGuard BasicPageGuard_default"

definition ReadPageGuard_Drop :: "ReadPageGuard \<Rightarrow> error + ReadPageGuard \<times> guard_call list" where
  "ReadPageGuard_Drop rg =
     (case rg of ReadPageGuard basic_guard \<Rightarrow>
        (case guard_page basic_guard of
           Some page \<Rightarrow>
             if \<not> guard_bpm basic_guard then Inl UndefinedBehaviour
             else Inr (ReadPageGuard BasicPageGuard_default,
                       [UnpinPage_call page (guard_is_dirty basic_guard), RUnlatch_call page])
         | None \<Rightarrow> Inr (ReadPageGuard BasicPageGuard_default, [])))"

definition WritePageGuard_Drop :: "WritePageGuard \<Rightarrow> error + WritePageGuard \<times> guard_call list" where
  "WritePageGuard_Drop wg =
     (case wg of WritePageGuard basic_guard \<Rightarrow>
        (case guard_page basic_guard of
           Some page \<Rightarrow>
             if \<not> guard_bpm basic_guard then Inl UndefinedBehaviour
             else Inr (WritePageGuard BasicPageGuard_default,
                       [UnpinPage_call page (guard_is_dirty basic_guard), WUnlatch_call page])
         | None \<Rightarrow> Inr (WritePageGuard BasicPageGuard_default, [])))"

text \<open>
  \<open>BufferPoolManager::FetchPageRead\<close> and \<open>FetchPageWrite\<close>: fetch, latch the page
  (a null page is dereferenced there), build the guard from \<open>{this, page}\<close>.
\<close>

definition FetchPageRead ::
  "BufferPoolManager \<Rightarrow> page_id_t
     \<Rightarrow> BufferPoolManager \<times> (error + ReadPageGuard \<times> guard_call list)" where
  "FetchPageRead bpm pid =
     (case FetchPage bpm pid of
        (bpm1, Inl e) \<Rightarrow> (bpm1, Inl e)
      | (bpm1, Inr None) \<Rightarrow> (bpm1, Inl UndefinedBehaviour)
      | (bpm1, Inr (Some page)) \<Rightarrow> (bpm1, Inr (ReadPageGuard_new True page, [RLatch_call page])))"

definition FetchPageWrite ::
  "BufferPoolManager \<Rightarrow> page_id_t
     \<Rightarrow> BufferPoolManager \<times> (error + WritePageGuard \<times> guard_call list)" where
  "FetchPageWrite bpm pid =
     (case FetchPage bpm pid of
        (bpm1, Inl e) \<Rightarrow> (bpm1, Inl e)
      | (bpm1, Inr None) \<Rightarrow> (bpm1, Inl UndefinedBehaviour)
      | (bpm1, Inr (Some page)) \<Rightarrow> (bpm1, Inr (WritePageGuard_new True page, [WLatch_call page])))"

text \<open>Fetch a page through a guard and drop the guard twice: the calls of each step.\<close>

definition fetch_read_drop_twice ::
  "BufferPoolManager \<Rightarrow> page_id_t \<Rightarrow> error + guard_call list \<times> guard_call list \<times> guard_call list" where
  "fetch_read_drop_twice bpm pid =
     (case snd (FetchPageRead bpm pid) of
        Inl e \<Rightarrow> Inl e
      | Inr (g, fetch_calls) \<Rightarrow>
          (case ReadPageGuard_Drop g of
             Inl e \<Rightarrow> Inl e
           | Inr (g1, drop_calls) \<Rightarrow>
               (case ReadPageGuard_Drop g1 of
                  Inl e \<Rightarrow> Inl e
                | Inr (g2, drop_again_calls) \<Rightarrow> Inr (fetch_calls, drop_calls, drop_again_calls))))"

definition fetch_write_drop_twice ::
  "BufferPoolManager \<Rightarrow> page_id_t \<Rightarrow> error + guard_call list \<times> guard_call list \<times> guard_call list" where
  "fetch_write_drop_twice bpm pid =
     (case snd (FetchPageWrite bpm pid) of
        Inl e \<Rightarrow> Inl e
      | Inr (g, fetch_calls) \<Rightarrow>
          (case WritePageGuard_Drop g of
             Inl e \<Rightarrow> Inl e
           | Inr (g1, drop_calls) \<Rightarrow>
               (case WritePageGuard_Drop g1 of
                  Inl e \<Rightarrow> Inl e
                | Inr (g2, drop_again_calls) \<Rightarrow> Inr (fetch_calls, drop_calls, drop_again_calls))))"

section \<open>Executor-layer values\<close>

text \<open>
  Modelled from the spec: the type library (\<open>type/value.h\<close>), \<open>common/rid.h\<close>,
  \<open>storage/table/tuple.h\<close> and the table heap are not among the sources. The spec gives
  "Tuple (opaque payload + RID), RID (page_id + slot), Schema (ordered typed columns), Value
  (sum over SQL types with comparison, null, typed-null construction)", "TupleMeta = {ts,
  deleted}" and "INVALID_PAGE_ID = -1". A default-constructed \<open>RID()\<close> is the invalid
  page with slot 0; a tuple built from values carries the default RID.
\<close>

datatype TypeId = BOOLEAN | INTEGER

datatype Value = Null TypeId | BooleanValue bool | IntegerValue int

datatype RID = RID int nat

definition RID_default :: RID where
  "RID_default = RID (- 1) 0"

record Tuple =
  tuple_values :: "Value list"
  tuple_rid :: RID

record TupleMeta =
  ts :: int
  is_deleted :: bool

type_synonym Schema = "TypeId list"

text \<open>\<open>Tuple(values, &schema)\<close>.\<close>

definition Tuple_of_values :: "Value list \<Rightarrow> Tuple" where
  "Tuple_of_values vs = \<lparr>tuple_values = vs, tuple_rid = RID_default\<rparr>"

definition IsNull :: "Value \<Rightarrow> bool" where
  "IsNull v = (case v of Null _ \<Rightarrow> True | _ \<Rightarrow> False)"

definition GetAs_bool :: "Value \<Rightarrow> bool" where
  "GetAs_bool v = (case v of BooleanValue b \<Rightarrow> b | IntegerValue n \<Rightarrow> n \<noteq> 0 | Null _ \<Rightarrow> False)"

text \<open>\<open>TableHeap::GetTuple(rid)\<close>, and \<open>GetTupleMeta(rid)\<close> as its first component.\<close>

type_synonym TableHeap = "RID \<Rightarrow> TupleMeta \<times> Tuple"

definition GetTupleMeta :: "TableHeap \<Rightarrow> RID \<Rightarrow> TupleMeta" where
  "GetTupleMeta heap rid = fst (heap rid)"

definition GetTuple :: "TableHeap \<Rightarrow> RID \<Rightarrow> TupleMeta \<times> Tuple" where
  "GetTuple heap rid = heap rid"

text \<open>
  A child executor is any \<open>AbstractExecutor\<close>. The children here produce a fixed sequence
  of rows: \<open>Init\<close> rewinds, \<open>Next\<close> writes the next row to both out-parameters and
  returns true, or returns false (and keeps returning false) at the end. An iterator into
  the rows is the part of the sequence from the iterator to \<open>end()\<close>.
\<close>

record ChildExecutor =
  child_rows :: "(Tuple \<times> RID) list"
  child_rest :: "(Tuple \<times> RID) list"

definition child_of :: "(Tuple \<times> RID) list \<Rightarrow> ChildExecutor" where
  "child_of rows = \<lparr>child_rows = rows, child_rest = rows\<rparr>"

definition child_Init :: "ChildExecutor \<Rightarrow> ChildExecutor" where
  "child_Init c = c\<lparr>child_rest := child_rows c\<rparr>"

definition child_Next :: "ChildExecutor \<Rightarrow> (Tuple \<times> RID) option \<times> ChildExecutor" where
  "child_Next c =
     (case child_rest c of
        [] \<Rightarrow> (None, c)
      | row # rest \<Rightarrow> (Some row, c\<lparr>child_rest := rest\<rparr>))"

section \<open>Index scan executor (index_scan_executor.cpp)\<close>

text \<open>
  \<open>cursor_\<close> is an iterator into \<open>rid_list_\<close>: the entries from the cursor to the end.
  \<open>Init\<close> takes the RID list \<open>ScanKey\<close> produced (the hash index is behind the catalog).
\<close>

record IndexScanExecutor =
  rid_list :: "RID list"
  rid_cursor :: "RID list"

definition IndexScanExecutor_Init ::
  "(Tuple \<Rightarrow> Value) option \<Rightarrow> RID list \<Rightarrow> IndexScanExecutor" where
  "IndexScanExecutor_Init filter_predicate scanned =
     (let rids = (if filter_predicate \<noteq> None then scanned else [])
      in \<lparr>rid_list = rids, rid_cursor = rids\<rparr>)"

text \<open>
  \<open>Next\<close>: the result is \<open>None\<close> when the loop never returns; otherwise the row written
  to the out-parameters (\<open>None\<close> for a \<open>false\<close> return) and the executor afterwards. On
  a deleted tuple the source says \<open>continue\<close> with the cursor where it was.
\<close>

partial_function (option) IndexScanExecutor_Next ::
  "TableHeap \<Rightarrow> (Tuple \<Rightarrow> Value) option \<Rightarrow> IndexScanExecutor
     \<Rightarrow> ((Tuple \<times> RID) option \<times> IndexScanExecutor) option" where
  "IndexScanExecutor_Next table_heap filter_predicate e =
     (case rid_cursor e of
        [] \<Rightarrow> Some (None, e)
      | rid # rest \<Rightarrow>
          if is_deleted (GetTupleMeta table_heap rid)
          then IndexScanExecutor_Next table_heap filter_predicate e
          else
            let tuple = snd (GetTuple table_heap rid);
                e' = e\<lparr>rid_cursor := rest\<rparr>
            in case filter_predicate of
                 Some p \<Rightarrow>
                   if GetAs_bool (p tuple) then Some (Some (tuple, rid), e')
                   else Some (Some (tuple, rid), e')
               | None \<Rightarrow> Some (Some (tuple, rid), e'))"

declare IndexScanExecutor_Next.simps [code]

section \<open>Insert executor (insert_executor.cpp)\<close>

text \<open>
  The table heap and the indexes live behind the catalog: \<open>InsertTuple\<close> and
  \<open>InsertEntry\<close> (with \<open>KeyFromTuple\<close> inside) are parameters, over any heap and index
  state. \<open>affected_row\<close> is a C++ \<open>int\<close>.
\<close>

record InsertExecutor =
  has_called :: bool
  child_executor :: ChildExecutor

definition InsertExecutor_Init :: "InsertExecutor \<Rightarrow> InsertExecutor" where
  "InsertExecutor_Init e = e\<lparr>child_executor := child_Init (child_executor e), has_called := False\<rparr>"

text \<open>The loop \<open>while (child_executor_->Next(&child_tuple, rid))\<close> over the rows left.\<close>

fun insert_rows ::
  "('heap \<Rightarrow> TupleMeta \<Rightarrow> Tuple \<Rightarrow> RID option \<times> 'heap) \<Rightarrow> ('index \<Rightarrow> Tuple \<Rightarrow> RID \<Rightarrow> 'index)
     \<Rightarrow> int \<Rightarrow> (Tuple \<times> RID) list \<Rightarrow> 'heap \<times> 'index list \<times> 32 word
     \<Rightarrow> 'heap \<times> 'index list \<times> 32 word" where
  "insert_rows InsertTuple InsertEntry temp_ts [] acc = acc"
| "insert_rows InsertTuple InsertEntry temp_ts ((child_tuple, child_rid) # rest)
       (table_heap, index_array, affected_row) =
     (let (insert_result, table_heap') =
            InsertTuple table_heap \<lparr>ts = temp_ts, is_deleted = False\<rparr> child_tuple;
          rid = (case insert_result of
                   Some new_rid \<Rightarrow> if child_rid = RID_default then new_rid else child_rid
                 | None \<Rightarrow> child_rid);
          index_array' = map (\<lambda>index. InsertEntry index child_tuple rid) index_array
      in insert_rows InsertTuple InsertEntry temp_ts rest
           (table_heap', index_array', affected_row + 1))"

definition InsertExecutor_Next ::
  "('heap \<Rightarrow> TupleMeta \<Rightarrow> Tuple \<Rightarrow> RID option \<times> 'heap) \<Rightarrow> ('index \<Rightarrow> Tuple \<Rightarrow> RID \<Rightarrow> 'index)
     \<Rightarrow> int \<Rightarrow> 'heap \<times> 'index list \<Rightarrow> InsertExecutor
     \<Rightarrow> Tuple option \<times> ('heap \<times> 'index list) \<times> InsertExecutor" where
  "InsertExecutor_Next InsertTuple InsertEntry temp_ts env e =
     (if has_called e then (None, env, e)
      else
        let (table_heap, index_array, affected_row) =
              insert_rows InsertTuple InsertEntry temp_ts (child_rest (child_executor e))
                (fst env, snd env, 0)
        in (Some (Tuple_of_values [IntegerValue (sint affected_row)]),
            (table_heap, index_array),
            e\<lparr>child_executor := (child_executor e)\<lparr>child_rest := []\<rparr>, has_called := True\<rparr>))"

text \<open>
  The results of \<open>n\<close> successive calls of \<open>Next\<close>, in order (\<open>None\<close>: returned false); each
  call runs on the heap, the indexes and the executor that the call before it left.
\<close>

fun InsertExecutor_calls ::
  "nat \<Rightarrow> ('heap \<Rightarrow> TupleMeta \<Rightarrow> Tuple \<Rightarrow> RID option \<times> 'heap) \<Rightarrow> ('index \<Rightarrow> Tuple \<Rightarrow> RID \<Rightarrow> 'index)
     \<Rightarrow> int \<Rightarrow> 'heap \<times> 'index list \<Rightarrow> InsertExecutor \<Rightarrow> Tuple option list" where
  "InsertExecutor_calls 0 InsertTuple InsertEntry temp_ts env e = []"
| "InsertExecutor_calls (Suc n) InsertTuple InsertEntry temp_ts env e =
     (let res = InsertExecutor_Next InsertTuple InsertEntry temp_ts env e
      in fst res # InsertExecutor_calls n InsertTuple InsertEntry temp_ts (fst (snd res)) (snd (snd res)))"

section \<open>Nested-loop join executor (nested_loop_join_executor.cpp)\<close>

datatype JoinType = INVALID_JOIN | LEFT | RIGHT | INNER | OUTER

text \<open>
  The plan: the join type, the predicate (\<open>Predicate()->EvaluateJoin\<close> on a left and a
  right tuple, the spec's "pure function from tuple+schema to value") and the child schemas.
\<close>

record NestedLoopJoinPlan =
  join_type :: JoinType
  join_predicate :: "Tuple \<Rightarrow> Tuple \<Rightarrow> Value"
  left_schema :: Schema
  right_schema :: Schema

record NestedLoopJoinExecutor =
  left_executor :: ChildExecutor
  right_executor :: ChildExecutor
  left_tuple :: Tuple
  left_has_next :: bool
  current_left_has_done :: bool

text \<open>
  The constructor throws for every join type but LEFT and INNER, with the message
  \<open>fmt::format("join type {} not supported", plan->GetJoinType())\<close>; the formatter of a
  join type is declared in a header that is not among the sources, so it is the
  parameter \<open>format_join_type\<close>. The constructor initialises neither flag and \<open>Init\<close> sets
  \<open>left_has_next\<close> only, so what \<open>current_left_has_done\<close> holds when \<open>Next\<close> first reads it
  is not fixed by the sources: both flags' first values are parameters here.
\<close>

definition NestedLoopJoinExecutor_new ::
  "(JoinType \<Rightarrow> string) \<Rightarrow> NestedLoopJoinPlan \<Rightarrow> ChildExecutor \<Rightarrow> ChildExecutor \<Rightarrow> bool \<Rightarrow> bool
     \<Rightarrow> error + NestedLoopJoinExecutor" where
  "NestedLoopJoinExecutor_new format_join_type plan left right has_next0 done0 =
     (if \<not> (join_type plan = LEFT \<or> join_type plan = INNER)
      then Inl (NotImplementedException
                  (''join type '' @ format_join_type (join_type plan) @ '' not supported''))
      else Inr \<lparr>left_executor = left, right_executor = right,
                left_tuple = Tuple_of_values [], left_has_next = has_next0,
                current_left_has_done = done0\<rparr>)"

text \<open>
  \<open>left_has_next = left_executor_->Next(&left_tuple_, &left_rid)\<close>: the tuple is
  overwritten only when the child produced one.
\<close>

definition fetch_left :: "NestedLoopJoinExecutor \<Rightarrow> NestedLoopJoinExecutor" where
  "fetch_left e =
     (case child_Next (left_executor e) of
        (None, l) \<Rightarrow> e\<lparr>left_executor := l, left_has_next := False\<rparr>
      | (Some (t, left_rid), l) \<Rightarrow> e\<lparr>left_executor := l, left_tuple := t, left_has_next := True\<rparr>)"

definition NestedLoopJoinExecutor_Init :: "NestedLoopJoinExecutor \<Rightarrow> NestedLoopJoinExecutor" where
  "NestedLoopJoinExecutor_Init e =
     fetch_left (e\<lparr>left_executor := child_Init (left_executor e),
                   right_executor := child_Init (right_executor e)\<rparr>)"

text \<open>\<open>tuple->GetValue(&schema, i)\<close> for every column of the schema.\<close>

definition schema_values :: "Schema \<Rightarrow> Tuple \<Rightarrow> Value list" where
  "schema_values schema t = map (\<lambda>i. tuple_values t ! i) [0..<length schema]"

definition LeftJoinRemainedLeftTuple :: "NestedLoopJoinPlan \<Rightarrow> Tuple \<Rightarrow> Tuple" where
  "LeftJoinRemainedLeftTuple plan l =
     Tuple_of_values (schema_values (left_schema plan) l @ map Null (right_schema plan))"

definition InnerJoinTuple :: "NestedLoopJoinPlan \<Rightarrow> Tuple \<Rightarrow> Tuple \<Rightarrow> Tuple" where
  "InnerJoinTuple plan l r =
     Tuple_of_values (schema_values (left_schema plan) l @ schema_values (right_schema plan) r)"

text \<open>
  The steps of the loop body that do not return: re-initialise the right child and pull
  the next left tuple; or keep the right child advanced past a tuple that did not match.
\<close>

definition advance_left :: "NestedLoopJoinExecutor \<Rightarrow> NestedLoopJoinExecutor" where
  "advance_left e =
     (fetch_left (e\<lparr>right_executor := child_Init (right_executor e)\<rparr>))
       \<lparr>current_left_has_done := False\<rparr>"

function NestedLoopJoinExecutor_Next ::
  "NestedLoopJoinPlan \<Rightarrow> NestedLoopJoinExecutor \<Rightarrow> Tuple option \<times> NestedLoopJoinExecutor" where
  "NestedLoopJoinExecutor_Next plan e =
     (if \<not> left_has_next e then (None, e)
      else if fst (child_Next (right_executor e)) = None then
        (if join_type plan = LEFT \<and> \<not> current_left_has_done e
         then (Some (LeftJoinRemainedLeftTuple plan (left_tuple e)),
               e\<lparr>right_executor := snd (child_Next (right_executor e)),
                 current_left_has_done := True\<rparr>)
         else NestedLoopJoinExecutor_Next plan
                (advance_left (e\<lparr>right_executor := snd (child_Next (right_executor e))\<rparr>)))
      else
        let right_tuple = fst (the (fst (child_Next (right_executor e))));
            e1 = e\<lparr>right_executor := snd (child_Next (right_executor e))\<rparr>;
            is_match = join_predicate plan (left_tuple e) right_tuple
        in if \<not> IsNull is_match \<and> GetAs_bool is_match
           then (Some (InnerJoinTuple plan (left_tuple e) right_tuple),
                 e1\<lparr>current_left_has_done := True\<rparr>)
           else NestedLoopJoinExecutor_Next plan e1)"
  by pat_completeness auto
termination
proof (relation "inv_image (less_than <*lex*> less_than)
    (\<lambda>(plan, e). (if left_has_next e then Suc (length (child_rest (left_executor e))) else 0,
                   length (child_rest (right_executor e))))", goal_cases)
  case 1
  show ?case by (intro wf_inv_image wf_lex_prod wf_less_than)
next
  case (2 plan e)
  then show ?case
    by (auto simp: advance_left_def fetch_left_def child_Next_def child_Init_def
        split: list.splits)
next
  case (3 plan e)
  then show ?case
    by (auto simp: child_Next_def split: list.splits)
qed

text \<open>The results of the first \<open>n\<close> calls of \<open>Next\<close>, in order (\<open>None\<close>: returned false).\<close>

fun NestedLoopJoinExecutor_calls ::
  "nat \<Rightarrow> NestedLoopJoinPlan \<Rightarrow> NestedLoopJoinExecutor \<Rightarrow> Tuple option list" where
  "NestedLoopJoinExecutor_calls 0 plan e = []"
| "NestedLoopJoinExecutor_calls (Suc n) plan e =
     (let res = NestedLoopJoinExecutor_Next plan e
      in fst res # NestedLoopJoinExecutor_calls n plan (snd res))"

text \<open>
  The left-join scenario of the spec: left child \<open>(1), (2)\<close>, right child \<open>(2), (3)\<close>,
  one INTEGER column each, predicate \<open>l = r\<close> on those columns. Modelled from the spec:
  the comparison of two values (the type library is not among the sources) is null when an
  operand is null and their equality otherwise.
\<close>

definition CompareEquals :: "Value \<Rightarrow> Value \<Rightarrow> Value" where
  "CompareEquals a b = (if IsNull a \<or> IsNull b then Null BOOLEAN else BooleanValue (a = b))"

definition int_row :: "int \<Rightarrow> nat \<Rightarrow> Tuple \<times> RID" where
  "int_row n slot = (\<lparr>tuple_values = [IntegerValue n], tuple_rid = RID 0 slot\<rparr>, RID 0 slot)"

definition scenario_left :: ChildExecutor where
  "scenario_left = child_of [int_row 1 0, int_row 2 1]"

definition scenario_right :: ChildExecutor where
  "scenario_right = child_of [int_row 2 0, int_row 3 1]"

definition scenario_plan :: NestedLoopJoinPlan where
  "scenario_plan =
     \<lparr>join_type = LEFT,
      join_predicate = (\<lambda>l r. CompareEquals (tuple_values l ! 0) (tuple_values r ! 0)),
      left_schema = [INTEGER], right_schema = [INTEGER]\<rparr>"

text \<open>
  The first three calls of \<open>Next\<close> after construction and \<open>Init\<close>. The plan is a LEFT
  join, so the constructor does not throw and never formats a join type.
\<close>

definition scenario_calls :: "bool \<Rightarrow> bool \<Rightarrow> error + Value list option list" where
  "scenario_calls has_next0 done0 =
     map_sum id
       (\<lambda>e. map (map_option tuple_values)
              (NestedLoopJoinExecutor_calls 3 scenario_plan (NestedLoopJoinExecutor_Init e)))
       (NestedLoopJoinExecutor_new (\<lambda>t. []) scenario_plan scenario_left scenario_right
          has_next0 done0)"

section \<open>Extendible hash table pages\<close>

text \<open>
  Modelled from the spec: the three page classes (\<open>extendible_htable_header_page\<close>,
  \<open>extendible_htable_directory_page\<close>, \<open>extendible_htable_bucket_page\<close>) are not among
  the sources. The spec gives their fields ("Header page: max_depth and an array of
  2^max_depth directory page ids (invalid = unoccupied)"; "Directory page: max_depth,
  current global_depth, per-bucket local_depth[2^max_depth], bucket_page_id[2^max_depth]";
  "Bucket page: max_size, current size, sequence of (key, value) entries") and the
  indexing ("dir_idx = high_bits(hash, header.max_depth); bucket_idx = hash & ((1 <<
  global_depth) - 1). Split image of i at local depth d is (i & ((1<<d)-1)) ^ (1 <<
  (d-1))"). Hashes are 32-bit, indices and depths are unsigned and small (the depths are
  at most 9 in the sources' configuration), so they are natural numbers here and an array
  is the function from its indices.
\<close>

record ExtendibleHTableHeaderPage =
  header_page_max_depth :: nat
  directory_page_ids :: "nat \<Rightarrow> page_id_t"

definition Header_Init :: "nat \<Rightarrow> ExtendibleHTableHeaderPage" where
  "Header_Init max_depth =
     \<lparr>header_page_max_depth = max_depth, directory_page_ids = (\<lambda>_. INVALID_PAGE_ID)\<rparr>"

definition HashToDirectoryIndex :: "ExtendibleHTableHeaderPage \<Rightarrow> nat \<Rightarrow> nat" where
  "HashToDirectoryIndex h hash = hash div 2 ^ (32 - header_page_max_depth h)"

definition GetDirectoryPageId :: "ExtendibleHTableHeaderPage \<Rightarrow> nat \<Rightarrow> page_id_t" where
  "GetDirectoryPageId h directory_idx = directory_page_ids h directory_idx"

definition SetDirectoryPageId ::
  "ExtendibleHTableHeaderPage \<Rightarrow> nat \<Rightarrow> page_id_t \<Rightarrow> ExtendibleHTableHeaderPage" where
  "SetDirectoryPageId h directory_idx pid =
     h\<lparr>directory_page_ids := (directory_page_ids h)(directory_idx := pid)\<rparr>"

record ExtendibleHTableDirectoryPage =
  directory_page_max_depth :: nat
  global_depth :: nat
  local_depths :: "nat \<Rightarrow> nat"
  bucket_page_ids :: "nat \<Rightarrow> page_id_t"

definition Directory_Init :: "nat \<Rightarrow> ExtendibleHTableDirectoryPage" where
  "Directory_Init max_depth =
     \<lparr>directory_page_max_depth = max_depth, global_depth = 0, local_depths = (\<lambda>_. 0),
      bucket_page_ids = (\<lambda>_. INVALID_PAGE_ID)\<rparr>"

definition HashToBucketIndex :: "ExtendibleHTableDirectoryPage \<Rightarrow> nat \<Rightarrow> nat" where
  "HashToBucketIndex d hash = hash mod 2 ^ global_depth d"

definition GetBucketPageId :: "ExtendibleHTableDirectoryPage \<Rightarrow> nat \<Rightarrow> page_id_t" where
  "GetBucketPageId d bucket_idx = bucket_page_ids d bucket_idx"

definition SetBucketPageId ::
  "ExtendibleHTableDirectoryPage \<Rightarrow> nat \<Rightarrow> page_id_t \<Rightarrow> ExtendibleHTableDirectoryPage" where
  "SetBucketPageId d bucket_idx pid = d\<lparr>bucket_page_ids := (bucket_page_ids d)(bucket_idx := pid)\<rparr>"

definition GetLocalDepth :: "ExtendibleHTableDirectoryPage \<Rightarrow> nat \<Rightarrow> nat" where
  "GetLocalDepth d bucket_idx = local_depths d bucket_idx"

definition SetLocalDepth ::
  "ExtendibleHTableDirectoryPage \<Rightarrow> nat \<Rightarrow> nat \<Rightarrow> ExtendibleHTableDirectoryPage" where
  "SetLocalDepth d bucket_idx depth = d\<lparr>local_depths := (local_depths d)(bucket_idx := depth)\<rparr>"

definition IncrLocalDepth :: "ExtendibleHTableDirectoryPage \<Rightarrow> nat \<Rightarrow> ExtendibleHTableDirectoryPage" where
  "IncrLocalDepth d bucket_idx = SetLocalDepth d bucket_idx (local_depths d bucket_idx + 1)"

definition DecrLocalDepth :: "ExtendibleHTableDirectoryPage \<Rightarrow> nat \<Rightarrow> ExtendibleHTableDirectoryPage" where
  "DecrLocalDepth d bucket_idx = SetLocalDepth d bucket_idx (local_depths d bucket_idx - 1)"

definition GetGlobalDepth :: "ExtendibleHTableDirectoryPage \<Rightarrow> nat" where
  "GetGlobalDepth d = global_depth d"

definition GetMaxDepth :: "ExtendibleHTableDirectoryPage \<Rightarrow> nat" where
  "GetMaxDepth d = directory_page_max_depth d"

text \<open>The number of directory slots in use.\<close>

definition Size_directory :: "ExtendibleHTableDirectoryPage \<Rightarrow> nat" where
  "Size_directory d = 2 ^ global_depth d"

text \<open>\<open>(i & ((1 << d) - 1)) ^ (1 << (d - 1))\<close> at the local depth \<open>d\<close> of slot \<open>i\<close>.\<close>

definition GetSplitImageIndex :: "ExtendibleHTableDirectoryPage \<Rightarrow> nat \<Rightarrow> nat" where
  "GetSplitImageIndex d bucket_idx =
     flip_bit (local_depths d bucket_idx - 1) (take_bit (local_depths d bucket_idx) bucket_idx)"

text \<open>
  "increment global_depth (duplicating the directory's lower half into the upper half,
  preserving local_depth and bucket_page_id entries)".
\<close>

definition IncrGlobalDepth :: "ExtendibleHTableDirectoryPage \<Rightarrow> ExtendibleHTableDirectoryPage" where
  "IncrGlobalDepth d =
     d\<lparr>global_depth := global_depth d + 1,
       local_depths := (\<lambda>i. if 2 ^ global_depth d \<le> i \<and> i < 2 ^ (global_depth d + 1)
                            then local_depths d (i - 2 ^ global_depth d) else local_depths d i),
       bucket_page_ids := (\<lambda>i. if 2 ^ global_depth d \<le> i \<and> i < 2 ^ (global_depth d + 1)
                               then bucket_page_ids d (i - 2 ^ global_depth d)
                               else bucket_page_ids d i)\<rparr>"

definition DecrGlobalDepth :: "ExtendibleHTableDirectoryPage \<Rightarrow> ExtendibleHTableDirectoryPage" where
  "DecrGlobalDepth d = d\<lparr>global_depth := global_depth d - 1\<rparr>"

text \<open>"while global_depth > 0 and every local_depth[i] < global_depth".\<close>

definition CanShrink :: "ExtendibleHTableDirectoryPage \<Rightarrow> bool" where
  "CanShrink d \<longleftrightarrow>
     global_depth d > 0
     \<and> list_all (\<lambda>i. local_depths d i < global_depth d) [0..<2 ^ global_depth d]"

record ('k, 'v) ExtendibleHTableBucketPage =
  bucket_page_max_size :: nat
  entries :: "('k \<times> 'v) list"

definition Bucket_Init :: "nat \<Rightarrow> ('k, 'v) ExtendibleHTableBucketPage" where
  "Bucket_Init max_size = \<lparr>bucket_page_max_size = max_size, entries = []\<rparr>"

text \<open>"Search the bucket linearly using the key comparator": the first entry with the key.\<close>

definition Bucket_Lookup :: "('k, 'v) ExtendibleHTableBucketPage \<Rightarrow> 'k \<Rightarrow> 'v option" where
  "Bucket_Lookup b key = map_of (entries b) key"

definition IsFull :: "('k, 'v) ExtendibleHTableBucketPage \<Rightarrow> bool" where
  "IsFull b \<longleftrightarrow> length (entries b) = bucket_page_max_size b"

definition IsEmpty :: "('k, 'v) ExtendibleHTableBucketPage \<Rightarrow> bool" where
  "IsEmpty b \<longleftrightarrow> length (entries b) = 0"

text \<open>"place entry in first empty slot": refused when the key is present or no slot is left.\<close>

definition Bucket_Insert ::
  "('k, 'v) ExtendibleHTableBucketPage \<Rightarrow> 'k \<Rightarrow> 'v \<Rightarrow> bool \<times> ('k, 'v) ExtendibleHTableBucketPage" where
  "Bucket_Insert b key val =
     (if length (entries b) \<ge> bucket_page_max_size b \<or> map_of (entries b) key \<noteq> None
      then (False, b)
      else (True, b\<lparr>entries := entries b @ [(key, val)]\<rparr>))"

text \<open>"remove matching entry": the first entry with the key.\<close>

fun remove_entry :: "'k \<Rightarrow> ('k \<times> 'v) list \<Rightarrow> ('k \<times> 'v) list" where
  "remove_entry key [] = []"
| "remove_entry key (e # es) = (if fst e = key then es else e # remove_entry key es)"

definition Bucket_Remove ::
  "('k, 'v) ExtendibleHTableBucketPage \<Rightarrow> 'k \<Rightarrow> bool \<times> ('k, 'v) ExtendibleHTableBucketPage" where
  "Bucket_Remove b key =
     (if map_of (entries b) key = None then (False, b)
      else (True, b\<lparr>entries := remove_entry key (entries b)\<rparr>))"

definition Clear :: "('k, 'v) ExtendibleHTableBucketPage \<Rightarrow> ('k, 'v) ExtendibleHTableBucketPage" where
  "Clear b = b\<lparr>entries := []\<rparr>"

section \<open>Extendible hash table (disk_extendible_hash_table.cpp)\<close>

text \<open>
  The table reaches its pages through the buffer pool and the page guards. The pool is
  taken to have a frame for every page the table asks for, and a frame is named by the id
  of the page it holds; pin counts and latches are not part of the table's state here.
  What the bytes of a page read as is kept in one store per page class, under the page's
  id. The guards are those of page_guard.cpp:

  \<^item> \<open>bpm_->NewPageGuarded(&id)\<close> hands out the pool's next page id with a basic guard on
    the new page (\<open>return {this, new_page}\<close>).
  \<^item> \<open>bpm_->FetchPageRead(id)\<close> and \<open>bpm_->FetchPageWrite(id)\<close> build their guard as
    \<open>{this, page}\<close>, that is with \<open>ReadPageGuard(bpm, page)\<close> and
    \<open>WritePageGuard(bpm, page)\<close>.
  \<^item> \<open>UpgradeWrite\<close> latches \<open>page_\<close> and builds \<open>WritePageGuard(bpm_, page_)\<close>.

  Modelled from the spec: the guard classes' declarations (\<open>page_guard.h\<close>) are not among
  the sources. The basic guard's constructor keeps the pool and the page ("owns an unpin
  obligation"), and \<open>As<T>()\<close> and \<open>AsMut<T>()\<close> read the data of the page the guard
  holds, \<open>page_->GetData()\<close>, as a \<open>T\<close>: on a guard that holds no page they go through a
  null pointer. The key comparator is equality of keys; \<open>Hash(key)\<close> is the hash
  function's value cut to 32 bits.
\<close>

definition BasicPageGuard_new :: "bool \<Rightarrow> frame_id_t \<Rightarrow> BasicPageGuard" where
  "BasicPageGuard_new bpm page = \<lparr>guard_bpm = bpm, guard_page = Some page, guard_is_dirty = False\<rparr>"

definition BasicPageGuard_AsMut :: "BasicPageGuard \<Rightarrow> error + frame_id_t" where
  "BasicPageGuard_AsMut g =
     (case guard_page g of None \<Rightarrow> Inl UndefinedBehaviour | Some page \<Rightarrow> Inr page)"

definition ReadPageGuard_As :: "ReadPageGuard \<Rightarrow> error + frame_id_t" where
  "ReadPageGuard_As rg =
     (case rg of ReadPageGuard basic_guard \<Rightarrow>
        (case guard_page basic_guard of None \<Rightarrow> Inl UndefinedBehaviour | Some page \<Rightarrow> Inr page))"

definition WritePageGuard_AsMut :: "WritePageGuard \<Rightarrow> error + frame_id_t" where
  "WritePageGuard_AsMut wg =
     (case wg of WritePageGuard basic_guard \<Rightarrow>
        (case guard_page basic_guard of None \<Rightarrow> Inl UndefinedBehaviour | Some page \<Rightarrow> Inr page))"

text \<open>
  \<open>BasicPageGuard::UpgradeWrite\<close>: \<open>this->page_->WLatch()\<close> goes through \<open>page_\<close>, then
  the write guard is built from \<open>bpm_\<close> and \<open>page_\<close>.
\<close>

definition UpgradeWrite :: "BasicPageGuard \<Rightarrow> error + WritePageGuard" where
  "UpgradeWrite g =
     (case guard_page g of
        None \<Rightarrow> Inl UndefinedBehaviour
      | Some page \<Rightarrow> Inr (WritePageGuard_new (guard_bpm g) page))"

record ('k, 'v) DiskExtendibleHashTable =
  hash_fn :: "'k \<Rightarrow> nat"
  header_max_depth :: nat
  directory_max_depth :: nat
  bucket_max_size :: nat
  header_page_id :: page_id_t
  header_pages :: "page_id_t \<Rightarrow> ExtendibleHTableHeaderPage"
  directory_pages :: "page_id_t \<Rightarrow> ExtendibleHTableDirectoryPage"
  bucket_pages :: "page_id_t \<Rightarrow> ('k, 'v) ExtendibleHTableBucketPage"
  pool_next_page_id :: page_id_t

definition Hash :: "('k, 'v) DiskExtendibleHashTable \<Rightarrow> 'k \<Rightarrow> nat" where
  "Hash t key = hash_fn t key mod 2 ^ 32"

definition NewPageGuarded ::
  "('k, 'v) DiskExtendibleHashTable \<Rightarrow> page_id_t \<times> BasicPageGuard \<times> ('k, 'v) DiskExtendibleHashTable" where
  "NewPageGuarded t =
     (pool_next_page_id t, BasicPageGuard_new True (pool_next_page_id t),
      t\<lparr>pool_next_page_id := pool_next_page_id t + 1\<rparr>)"

definition table_FetchPageRead :: "page_id_t \<Rightarrow> ReadPageGuard" where
  "table_FetchPageRead pid = ReadPageGuard_new True pid"

definition table_FetchPageWrite :: "page_id_t \<Rightarrow> WritePageGuard" where
  "table_FetchPageWrite pid = WritePageGuard_new True pid"

text \<open>
  The constructor, on a pool whose next page id is \<open>first_page_id\<close>: the header page is a
  new page, reached through its basic guard.
\<close>

definition DiskExtendibleHashTable_new ::
  "page_id_t \<Rightarrow> ('k \<Rightarrow> nat) \<Rightarrow> nat \<Rightarrow> nat \<Rightarrow> nat \<Rightarrow> error + ('k, 'v) DiskExtendibleHashTable" where
  "DiskExtendibleHashTable_new first_page_id hash_function header_depth directory_depth bucket_size =
     (let t0 = \<lparr>hash_fn = hash_function, header_max_depth = header_depth,
                directory_max_depth = directory_depth, bucket_max_size = bucket_size,
                header_page_id = INVALID_PAGE_ID,
                header_pages = (\<lambda>_. Header_Init 0),
                directory_pages = (\<lambda>_. Directory_Init 0),
                bucket_pages = (\<lambda>_. Bucket_Init 0),
                pool_next_page_id = first_page_id\<rparr>;
          (new_id, header_guard, t1) = NewPageGuarded t0
      in
      case BasicPageGuard_AsMut header_guard of
        Inl e \<Rightarrow> Inl e
      | Inr header \<Rightarrow>
          Inr (t1\<lparr>header_page_id := new_id,
                  header_pages := (header_pages t1)(header := Header_Init header_depth)\<rparr>))"

text \<open>
  \<open>GetValue(key, result)\<close>: the return value and the result vector afterwards, or the
  error the call ends in.
\<close>

definition GetValue ::
  "('k, 'v) DiskExtendibleHashTable \<Rightarrow> 'k \<Rightarrow> 'v list \<Rightarrow> error + bool \<times> 'v list" where
  "GetValue t key result =
     (if header_page_id t = INVALID_PAGE_ID then Inr (False, result)
      else
        case ReadPageGuard_As (table_FetchPageRead (header_page_id t)) of
          Inl e \<Rightarrow> Inl e
        | Inr header \<Rightarrow>
            let header_page = header_pages t header;
                hash_key = Hash t key;
                dir_id = HashToDirectoryIndex header_page hash_key;
                dir_page_id = GetDirectoryPageId header_page dir_id
            in
            if dir_page_id = INVALID_PAGE_ID then Inr (False, result)
            else
              case ReadPageGuard_As (table_FetchPageRead dir_page_id) of
                Inl e \<Rightarrow> Inl e
              | Inr dir \<Rightarrow>
                  let dir_page = directory_pages t dir;
                      bucket_index = HashToBucketIndex dir_page hash_key;
                      bucket_page_id = GetBucketPageId dir_page bucket_index
                  in
                  if bucket_page_id = INVALID_PAGE_ID then Inr (False, result)
                  else
                    case ReadPageGuard_As (table_FetchPageRead bucket_page_id) of
                      Inl e \<Rightarrow> Inl e
                    | Inr bucket \<Rightarrow>
                        (case Bucket_Lookup (bucket_pages t bucket) key of
                           Some val \<Rightarrow> Inr (True, result @ [val])
                         | None \<Rightarrow> Inr (False, result)))"

text \<open>
  The four index loops of \<open>SplitBucket\<close> and the two of \<open>TryMergeBucketRecursive\<close>:
  \<open>for (int i = start; i < size; i += diff)\<close> and \<open>for (int i = idx - diff; i >= 0; i -= diff)\<close>,
  as the indices they visit, in order. \<open>diff\<close> is a power of two.
\<close>

function up_loop :: "nat \<Rightarrow> nat \<Rightarrow> nat \<Rightarrow> nat list" where
  "up_loop diff n i = (if diff = 0 \<or> n \<le> i then [] else i # up_loop diff n (i + diff))"
  by pat_completeness auto
termination
  by (relation "measure (\<lambda>(diff, n, i). n - i)") auto

declare up_loop.simps [simp del]

function down_loop :: "nat \<Rightarrow> nat \<Rightarrow> nat list" where
  "down_loop diff idx = (if diff = 0 \<or> idx < diff then [] else (idx - diff) # down_loop diff (idx - diff))"
  by pat_completeness auto
termination
  by (relation "measure (\<lambda>(diff, idx). idx)") auto

declare down_loop.simps [simp del]

text \<open>The redistribution loop of \<open>SplitBucket\<close> over the entries copied out of the bucket.\<close>

fun rehash_entries ::
  "('k, 'v) DiskExtendibleHashTable \<Rightarrow> ExtendibleHTableDirectoryPage \<Rightarrow> page_id_t \<Rightarrow> page_id_t
     \<Rightarrow> ('k \<times> 'v) list
     \<Rightarrow> ('k, 'v) ExtendibleHTableBucketPage \<times> ('k, 'v) ExtendibleHTableBucketPage
     \<Rightarrow> error + ('k, 'v) ExtendibleHTableBucketPage \<times> ('k, 'v) ExtendibleHTableBucketPage" where
  "rehash_entries t directory bucket_page_id split_page_id [] acc = Inr acc"
| "rehash_entries t directory bucket_page_id split_page_id (entry # rest) (bucket, split_bucket) =
     (let rehash_bucket_index = HashToBucketIndex directory (Hash t (fst entry));
          rehash_bucket_page_id = GetBucketPageId directory rehash_bucket_index
      in
      if \<not> (rehash_bucket_page_id = bucket_page_id \<or> rehash_bucket_page_id = split_page_id)
      then Inl (AssertionFailed ''rehash_bucket_page_id == bucket_page_id || rehash_bucket_page_id == split_page_id'')
      else if rehash_bucket_page_id = bucket_page_id
      then rehash_entries t directory bucket_page_id split_page_id rest
             (snd (Bucket_Insert bucket (fst entry) (snd entry)), split_bucket)
      else rehash_entries t directory bucket_page_id split_page_id rest
             (bucket, snd (Bucket_Insert split_bucket (fst entry) (snd entry))))"

text \<open>
  \<open>SplitBucket(directory, bucket, bucket_idx)\<close>, with the directory and the bucket given by
  the pages their pointers read. The split page is a new page whose basic guard is upgraded
  to a write guard. It returns true whenever it returns.
\<close>

definition SplitBucket ::
  "('k, 'v) DiskExtendibleHashTable \<Rightarrow> page_id_t \<Rightarrow> page_id_t \<Rightarrow> nat
     \<Rightarrow> error + bool \<times> ('k, 'v) DiskExtendibleHashTable" where
  "SplitBucket t directory_id bucket_id bucket_idx =
     (let split_bucket_id = GetSplitImageIndex (directory_pages t directory_id) bucket_idx;
          (split_page_id, split_page_basic_guard, t1) = NewPageGuarded t
      in
      case UpgradeWrite split_page_basic_guard of
        Inl e \<Rightarrow> Inl e
      | Inr split_page_write_guard \<Rightarrow>
          (case WritePageGuard_AsMut split_page_write_guard of
             Inl e \<Rightarrow> Inl e
           | Inr split \<Rightarrow>
               let directory = directory_pages t1 directory_id;
                   bucket = bucket_pages t1 bucket_id;
                   split_bucket = Bucket_Init (bucket_max_size t1);
                   local_depth = GetLocalDepth directory bucket_idx;
                   d1 = SetLocalDepth (SetBucketPageId directory split_bucket_id split_page_id)
                          split_bucket_id local_depth;
                   diff = 2 ^ local_depth;
                   d2 = fold (\<lambda>i d. SetLocalDepth d i local_depth)
                          (up_loop diff (Size_directory d1) (bucket_idx + diff)) d1;
                   d3 = fold (\<lambda>i d. SetLocalDepth d i local_depth) (down_loop diff bucket_idx) d2;
                   d4 = fold (\<lambda>i d. SetLocalDepth (SetBucketPageId d i split_page_id) i local_depth)
                          (up_loop diff (Size_directory d3) (split_bucket_id + diff)) d3;
                   d5 = fold (\<lambda>i d. SetLocalDepth (SetBucketPageId d i split_page_id) i local_depth)
                          (down_loop diff split_bucket_id) d4;
                   bucket_page_id = GetBucketPageId d5 bucket_idx
               in
               case rehash_entries t1 d5 bucket_page_id split_page_id (entries bucket)
                      (Clear bucket, split_bucket) of
                 Inl e \<Rightarrow> Inl e
               | Inr (bucket', split_bucket') \<Rightarrow>
                   Inr (True,
                     t1\<lparr>directory_pages := (directory_pages t1)(directory_id := d5),
                        bucket_pages := (bucket_pages t1)
                          (bucket_id := bucket', split := split_bucket')\<rparr>)))"

text \<open>
  The two blocks of \<open>Insert\<close> that create a page: the directory page of a header slot that
  has none (a new page, initialised through its basic guard and linked from the header),
  and the bucket page of a directory slot that has none (a new page whose basic guard is
  upgraded to a write guard, initialised and linked from the directory at local depth 0).
  Each gives the new page's id and the table afterwards.
\<close>

definition create_directory ::
  "('k, 'v) DiskExtendibleHashTable \<Rightarrow> page_id_t \<Rightarrow> nat
     \<Rightarrow> error + page_id_t \<times> ('k, 'v) DiskExtendibleHashTable" where
  "create_directory t header dir_id =
     (let (dir_page_id, dir_guard, t1) = NewPageGuarded t
      in
      case BasicPageGuard_AsMut dir_guard of
        Inl e \<Rightarrow> Inl e
      | Inr dir \<Rightarrow>
          Inr (dir_page_id,
               t1\<lparr>directory_pages := (directory_pages t1)
                     (dir := Directory_Init (directory_max_depth t1)),
                  header_pages := (header_pages t1)
                     (header := SetDirectoryPageId (header_pages t1 header) dir_id dir_page_id)\<rparr>))"

definition create_bucket ::
  "('k, 'v) DiskExtendibleHashTable \<Rightarrow> page_id_t \<Rightarrow> nat
     \<Rightarrow> error + page_id_t \<times> ('k, 'v) DiskExtendibleHashTable" where
  "create_bucket t dir bucket_index =
     (let (bucket_page_id, bucket_basic_guard, t1) = NewPageGuarded t
      in
      case UpgradeWrite bucket_basic_guard of
        Inl e \<Rightarrow> Inl e
      | Inr bucket_write_guard \<Rightarrow>
          (case WritePageGuard_AsMut bucket_write_guard of
             Inl e \<Rightarrow> Inl e
           | Inr bucket \<Rightarrow>
               Inr (bucket_page_id,
                    t1\<lparr>bucket_pages := (bucket_pages t1)
                          (bucket := Bucket_Init (bucket_max_size t1)),
                       directory_pages := (directory_pages t1)
                          (dir := SetLocalDepth
                                    (SetBucketPageId (directory_pages t1 dir) bucket_index
                                       bucket_page_id)
                                    bucket_index 0)\<rparr>)))"

text \<open>
  \<open>Insert\<close> calls itself after a split. The result is \<open>None\<close> when the call never
  returns; otherwise the error it ends in, or the return value with the table afterwards.
\<close>

partial_function (option) Insert ::
  "('k, 'v) DiskExtendibleHashTable \<Rightarrow> 'k \<Rightarrow> 'v
     \<Rightarrow> (error + bool \<times> ('k, 'v) DiskExtendibleHashTable) option" where
  "Insert t key val =
     (if header_page_id t = INVALID_PAGE_ID then Some (Inr (False, t))
      else
        case WritePageGuard_AsMut (table_FetchPageWrite (header_page_id t)) of
          Inl e \<Rightarrow> Some (Inl e)
        | Inr header \<Rightarrow>
            let hash_key = Hash t key;
                dir_id = HashToDirectoryIndex (header_pages t header) hash_key
            in
            case (if GetDirectoryPageId (header_pages t header) dir_id = INVALID_PAGE_ID
                  then create_directory t header dir_id
                  else Inr (GetDirectoryPageId (header_pages t header) dir_id, t)) of
              Inl e \<Rightarrow> Some (Inl e)
            | Inr (dir_page_id, t1) \<Rightarrow>
                (case WritePageGuard_AsMut (table_FetchPageWrite dir_page_id) of
                   Inl e \<Rightarrow> Some (Inl e)
                 | Inr dir \<Rightarrow>
                     let bucket_index = HashToBucketIndex (directory_pages t1 dir) hash_key
                     in
                     case (if GetBucketPageId (directory_pages t1 dir) bucket_index = INVALID_PAGE_ID
                           then create_bucket t1 dir bucket_index
                           else Inr (GetBucketPageId (directory_pages t1 dir) bucket_index, t1)) of
                       Inl e \<Rightarrow> Some (Inl e)
                     | Inr (bucket_page_id, t2) \<Rightarrow>
                         (case WritePageGuard_AsMut (table_FetchPageWrite bucket_page_id) of
                            Inl e \<Rightarrow> Some (Inl e)
                          | Inr bucket \<Rightarrow>
                              let dir_page2 = directory_pages t2 dir;
                                  bucket_page = bucket_pages t2 bucket
                              in
                              if Bucket_Lookup bucket_page key \<noteq> None then Some (Inr (False, t2))
                              else if \<not> IsFull bucket_page then
                                Some (Inr (fst (Bucket_Insert bucket_page key val),
                                           t2\<lparr>bucket_pages := (bucket_pages t2)
                                                (bucket := snd (Bucket_Insert bucket_page key val))\<rparr>))
                              else if GetGlobalDepth dir_page2 = GetLocalDepth dir_page2 bucket_index
                                      \<and> GetMaxDepth dir_page2 \<le> GetGlobalDepth dir_page2
                              then Some (Inr (False, t2))
                              else
                                let dir_page3 =
                                      (if GetGlobalDepth dir_page2 = GetLocalDepth dir_page2 bucket_index
                                       then IncrGlobalDepth dir_page2 else dir_page2);
                                    dir_page4 = IncrLocalDepth dir_page3 bucket_index;
                                    t3 = t2\<lparr>directory_pages := (directory_pages t2)(dir := dir_page4)\<rparr>
                                in
                                case SplitBucket t3 dir bucket bucket_index of
                                  Inl e \<Rightarrow> Some (Inl e)
                                | Inr (split_ret, t4) \<Rightarrow>
                                    if \<not> split_ret then Some (Inr (False, t4))
                                    else Insert t4 key val)))"

declare Insert.simps [code]

text \<open>
  One pass of the loop of \<open>TryMergeBucketRecursive(directory, bucket, bucket_idx)\<close> after
  its tests: the split image's bucket, read at page \<open>split_image\<close>, is cleared, and the slots
  of the merged bucket get the page of \<open>bucket_idx\<close> and the decremented local depth (the
  \<open>bucket\<close> argument is not used).
\<close>

definition merge_step ::
  "('k, 'v) DiskExtendibleHashTable \<Rightarrow> page_id_t \<Rightarrow> nat \<Rightarrow> page_id_t
     \<Rightarrow> ('k, 'v) DiskExtendibleHashTable" where
  "merge_step t directory_id bucket_idx split_image =
     (let directory = directory_pages t directory_id;
          t1 = t\<lparr>bucket_pages := (bucket_pages t)
                 (split_image := Clear (bucket_pages t split_image))\<rparr>;
          bucket_page_index = GetBucketPageId directory bucket_idx;
          d1 = DecrLocalDepth directory bucket_idx;
          local_depth = GetLocalDepth d1 bucket_idx;
          diff = 2 ^ local_depth;
          d2 = fold (\<lambda>i d. SetLocalDepth (SetBucketPageId d i bucket_page_index) i local_depth)
                 (up_loop diff (Size_directory d1) (bucket_idx + diff)) d1;
          d3 = fold (\<lambda>i d. SetLocalDepth (SetBucketPageId d i bucket_page_index) i local_depth)
                 (down_loop diff bucket_idx) d2
      in t1\<lparr>directory_pages := (directory_pages t1)(directory_id := d3)\<rparr>)"

text \<open>The loops visit neither their starting slot nor any slot twice.\<close>

lemma up_loop_stop: "diff = 0 \<or> n \<le> i \<Longrightarrow> up_loop diff n i = []"
  by (subst up_loop.simps) simp

lemma up_loop_step: "0 < diff \<Longrightarrow> i < n \<Longrightarrow> up_loop diff n i = i # up_loop diff n (i + diff)"
  by (subst up_loop.simps) simp

lemma down_loop_stop: "diff = 0 \<or> idx < diff \<Longrightarrow> down_loop diff idx = []"
  by (subst down_loop.simps) simp

lemma down_loop_step:
  "0 < diff \<Longrightarrow> diff \<le> idx \<Longrightarrow> down_loop diff idx = (idx - diff) # down_loop diff (idx - diff)"
  by (subst down_loop.simps) simp

lemma up_loop_set:
  "set (up_loop diff n i) = (if diff = 0 then {} else {j. i \<le> j \<and> j < n \<and> (j - i) mod diff = 0})"
proof (induction diff n i rule: up_loop.induct)
  case (1 diff n i)
  show ?case
  proof (cases "diff = 0 \<or> n \<le> i")
    case True
    then show ?thesis by (auto simp: up_loop_stop)
  next
    case False
    then have d: "diff > 0" and i: "i < n" by auto
    have "{j. i \<le> j \<and> j < n \<and> (j - i) mod diff = 0}
          = insert i {j. i + diff \<le> j \<and> j < n \<and> (j - (i + diff)) mod diff = 0}"
      (is "?A = insert i ?B")
    proof (intro set_eqI iffI)
      fix j assume "j \<in> ?A"
      then have j: "i \<le> j" "j < n" "(j - i) mod diff = 0" by auto
      show "j \<in> insert i ?B"
      proof (cases "j = i")
        case True
        then show ?thesis by simp
      next
        case False
        with j have "j - i > 0" by simp
        with j(3) d have ge: "diff \<le> j - i" by (metis mod_less not_le less_numeral_extra(3))
        with j(3) have "(j - i - diff) mod diff = 0"
          by (simp add: le_mod_geq)
        moreover have "j - i - diff = j - (i + diff)" by simp
        ultimately have "(j - (i + diff)) mod diff = 0" by simp
        moreover from ge j(1) have "i + diff \<le> j" by linarith
        ultimately show ?thesis using j(2) by simp
      qed
    next
      fix j assume "j \<in> insert i ?B"
      then consider "j = i" | "j \<in> ?B" by blast
      then show "j \<in> ?A"
      proof cases
        case 1
        with i show ?thesis by simp
      next
        case 2
        then have j: "i + diff \<le> j" "j < n" "(j - (i + diff)) mod diff = 0" by auto
        from j(1) have "j - i = (j - (i + diff)) + diff" by simp
        with j(3) have "(j - i) mod diff = 0" by (metis mod_add_self2)
        with j show ?thesis by simp
      qed
    qed
    moreover from d have "diff \<noteq> 0" by simp
    ultimately show ?thesis using False 1 by (simp add: up_loop_step [OF d i])
  qed
qed

lemma down_loop_set:
  "set (down_loop diff idx) = (if diff = 0 then {} else {j. j < idx \<and> (idx - j) mod diff = 0})"
proof (induction diff idx rule: down_loop.induct)
  case (1 diff idx)
  show ?case
  proof (cases "diff = 0 \<or> idx < diff")
    case True
    then show ?thesis
    proof
      assume "diff = 0"
      then show ?thesis by (simp add: down_loop_stop)
    next
      assume lt: "idx < diff"
      have "{j. j < idx \<and> (idx - j) mod diff = 0} = {}"
      proof (intro set_eqI iffI)
        fix j assume "j \<in> {j. j < idx \<and> (idx - j) mod diff = 0}"
        then have "j < idx" "(idx - j) mod diff = 0" by auto
        moreover from this lt have "idx - j < diff" "idx - j > 0" by auto
        ultimately show "j \<in> {}" by simp
      qed simp
      with lt show ?thesis by (simp add: down_loop_stop)
    qed
  next
    case False
    then have d: "diff > 0" and i: "diff \<le> idx" by auto
    have "{j. j < idx \<and> (idx - j) mod diff = 0}
          = insert (idx - diff) {j. j < idx - diff \<and> (idx - diff - j) mod diff = 0}"
      (is "?A = insert _ ?B")
    proof (intro set_eqI iffI)
      fix j assume "j \<in> ?A"
      then have j: "j < idx" "(idx - j) mod diff = 0" by auto
      then have "idx - j > 0" by simp
      with j(2) d have ge: "diff \<le> idx - j" by (metis mod_less not_le less_numeral_extra(3))
      show "j \<in> insert (idx - diff) ?B"
      proof (cases "j = idx - diff")
        case True
        then show ?thesis by simp
      next
        case False
        from ge j(2) have "(idx - j - diff) mod diff = 0" by (simp add: le_mod_geq)
        moreover have "idx - j - diff = idx - diff - j" by simp
        ultimately have "(idx - diff - j) mod diff = 0" by simp
        moreover from ge False j(1) have "j < idx - diff" by simp
        ultimately show ?thesis by simp
      qed
    next
      fix j assume "j \<in> insert (idx - diff) ?B"
      then consider "j = idx - diff" | "j \<in> ?B" by blast
      then show "j \<in> ?A"
      proof cases
        case 1
        with i d show ?thesis by simp
      next
        case 2
        then have j: "j < idx - diff" "(idx - diff - j) mod diff = 0" by auto
        from j(1) have "idx - j = (idx - diff - j) + diff" by simp
        with j(2) have "(idx - j) mod diff = 0" by (metis mod_add_self2)
        with j(1) show ?thesis by simp
      qed
    qed
    moreover from d have "diff \<noteq> 0" by simp
    ultimately show ?thesis using False 1 by (simp add: down_loop_step [OF d i])
  qed
qed

lemma fold_SetLocalDepth_local_depths:
  "local_depths (fold (\<lambda>i d. SetLocalDepth d i l) xs d) j = (if j \<in> set xs then l else local_depths d j)"
  by (induction xs arbitrary: d) (auto simp: SetLocalDepth_def)

lemma fold_SetLocalDepth_others:
  "bucket_page_ids (fold (\<lambda>i d. SetLocalDepth d i l) xs d) = bucket_page_ids d"
  "global_depth (fold (\<lambda>i d. SetLocalDepth d i l) xs d) = global_depth d"
  "directory_page_max_depth (fold (\<lambda>i d. SetLocalDepth d i l) xs d) = directory_page_max_depth d"
  by (induction xs arbitrary: d) (auto simp: SetLocalDepth_def)

lemma fold_SetBoth_local_depths:
  "local_depths (fold (\<lambda>i d. SetLocalDepth (SetBucketPageId d i p) i l) xs d) j
     = (if j \<in> set xs then l else local_depths d j)"
  by (induction xs arbitrary: d) (auto simp: SetLocalDepth_def SetBucketPageId_def)

lemma fold_SetBoth_bucket_page_ids:
  "bucket_page_ids (fold (\<lambda>i d. SetLocalDepth (SetBucketPageId d i p) i l) xs d) j
     = (if j \<in> set xs then p else bucket_page_ids d j)"
  by (induction xs arbitrary: d) (auto simp: SetLocalDepth_def SetBucketPageId_def)

lemma fold_SetBoth_others:
  "global_depth (fold (\<lambda>i d. SetLocalDepth (SetBucketPageId d i p) i l) xs d) = global_depth d"
  "directory_page_max_depth (fold (\<lambda>i d. SetLocalDepth (SetBucketPageId d i p) i l) xs d)
     = directory_page_max_depth d"
  by (induction xs arbitrary: d) (auto simp: SetLocalDepth_def SetBucketPageId_def)

lemma merge_step_local_depth:
  "local_depths (directory_pages (merge_step t directory_id bucket_idx split_image) directory_id)
     bucket_idx
     = local_depths (directory_pages t directory_id) bucket_idx - 1"
proof -
  have "bucket_idx \<notin> set (up_loop diff n (bucket_idx + diff))"
    and "bucket_idx \<notin> set (down_loop diff bucket_idx)" for diff n
    by (simp_all add: up_loop_set down_loop_set)
  then show ?thesis
    unfolding merge_step_def Let_def
    by (simp add: fold_SetBoth_local_depths GetLocalDepth_def)
      (simp add: DecrLocalDepth_def SetLocalDepth_def)
qed

text \<open>
  \<open>TryMergeBucketRecursive(directory, bucket, bucket_idx)\<close>: the loop with its four tests;
  the split image's bucket is fetched through a write guard in every pass.
\<close>

function TryMergeBucketRecursive ::
  "('k, 'v) DiskExtendibleHashTable \<Rightarrow> page_id_t \<Rightarrow> nat
     \<Rightarrow> error + ('k, 'v) DiskExtendibleHashTable" where
  "TryMergeBucketRecursive t directory_id bucket_idx =
     (if GetLocalDepth (directory_pages t directory_id) bucket_idx = 0 then Inr t
      else if GetBucketPageId (directory_pages t directory_id)
                (GetSplitImageIndex (directory_pages t directory_id) bucket_idx) = INVALID_PAGE_ID
      then Inr t
      else
        case WritePageGuard_AsMut
               (table_FetchPageWrite
                  (GetBucketPageId (directory_pages t directory_id)
                     (GetSplitImageIndex (directory_pages t directory_id) bucket_idx))) of
          Inl e \<Rightarrow> Inl e
        | Inr split_image \<Rightarrow>
            if \<not> IsEmpty (bucket_pages t split_image) then Inr t
            else if GetLocalDepth (directory_pages t directory_id) bucket_idx
                    \<noteq> GetLocalDepth (directory_pages t directory_id)
                        (GetSplitImageIndex (directory_pages t directory_id) bucket_idx)
            then Inr t
            else TryMergeBucketRecursive (merge_step t directory_id bucket_idx split_image)
                   directory_id bucket_idx)"
  by pat_completeness auto
termination
proof (relation "measure (\<lambda>(t, directory_id, bucket_idx).
    local_depths (directory_pages t directory_id) bucket_idx)", goal_cases)
  case 1
  show ?case by simp
next
  case (2 t directory_id bucket_idx split_image)
  then have "local_depths (directory_pages t directory_id) bucket_idx \<noteq> 0"
    by (simp add: GetLocalDepth_def)
  then show ?case by (simp add: merge_step_local_depth)
qed

declare TryMergeBucketRecursive.simps [simp del]

text \<open>\<open>while (dir_page->CanShrink()) dir_page->DecrGlobalDepth();\<close>\<close>

function shrink_directory :: "ExtendibleHTableDirectoryPage \<Rightarrow> ExtendibleHTableDirectoryPage" where
  "shrink_directory d = (if CanShrink d then shrink_directory (DecrGlobalDepth d) else d)"
  by pat_completeness auto
termination
  by (relation "measure global_depth") (auto simp: CanShrink_def DecrGlobalDepth_def)

declare shrink_directory.simps [simp del]

text \<open>\<open>Remove(key)\<close>: the return value with the table afterwards, or the error it ends in.\<close>

definition Remove_htable ::
  "('k, 'v) DiskExtendibleHashTable \<Rightarrow> 'k \<Rightarrow> error + bool \<times> ('k, 'v) DiskExtendibleHashTable" where
  "Remove_htable t key =
     (case WritePageGuard_AsMut (table_FetchPageWrite (header_page_id t)) of
        Inl e \<Rightarrow> Inl e
      | Inr header \<Rightarrow>
          let header_page = header_pages t header;
              hash_key = Hash t key;
              dir_id = HashToDirectoryIndex header_page hash_key;
              dir_page_id = GetDirectoryPageId header_page dir_id
          in
          if dir_page_id = INVALID_PAGE_ID then Inr (False, t)
          else
            case WritePageGuard_AsMut (table_FetchPageWrite dir_page_id) of
              Inl e \<Rightarrow> Inl e
            | Inr dir \<Rightarrow>
                let dir_page = directory_pages t dir;
                    bucket_index = HashToBucketIndex dir_page hash_key;
                    bucket_page_id = GetBucketPageId dir_page bucket_index
                in
                if bucket_page_id = INVALID_PAGE_ID then Inr (False, t)
                else
                  case WritePageGuard_AsMut (table_FetchPageWrite bucket_page_id) of
                    Inl e \<Rightarrow> Inl e
                  | Inr bucket \<Rightarrow>
                      let remove_ret = fst (Bucket_Remove (bucket_pages t bucket) key);
                          t1 = t\<lparr>bucket_pages := (bucket_pages t)
                                 (bucket := snd (Bucket_Remove (bucket_pages t bucket) key))\<rparr>
                      in
                      if \<not> remove_ret then Inr (False, t1)
                      else if \<not> IsEmpty (bucket_pages t1 bucket) then Inr (True, t1)
                      else
                        case TryMergeBucketRecursive t1 dir bucket_index of
                          Inl e \<Rightarrow> Inl e
                        | Inr t2 \<Rightarrow>
                            Inr (True,
                                 t2\<lparr>directory_pages := (directory_pages t2)
                                       (dir := shrink_directory (directory_pages t2 dir))\<rparr>))"

chapter \<open>Properties\<close>

section \<open>LRU-K replacer\<close>

lemma static_cast_int_7 [simp]: "static_cast_int 7 = 7"
  by (simp add: static_cast_int_def)

text \<open>
  C2 (replacer classification: history iff \<open>0 < c < k\<close>, cache iff \<open>c \<ge> k\<close>, no frame
  twice in a list). With \<open>k = 3\<close>, two accesses to frame 0 leave its count at 2 and
  frame 0 twice in the history list: \<open>RecordAccess\<close> pushes a node on every access below
  \<open>k\<close> without looking whether the frame already has one.
\<close>

theorem RecordAccess_duplicates_history:
  "map_sum id (\<lambda>r. (frames_of (history_list r), frames_of (cache_list r), access_count r 0))
     (replacer_run (LRUKReplacer_new 7 3) [OpRecordAccess 0, OpRecordAccess 0])
   = Inr ([0, 0], [], 2)"
  by (simp add: LRUKReplacer_new_def RecordAccess_def frames_of_def Let_def)

text \<open>
  C6 (remove requires an evictable frame and then fails no assertion). The assertion in
  \<open>Remove\<close> is \<open>!is_evictable_map_[frame_id]\<close>: it fails exactly when the frame is
  evictable. Frame 0, accessed once and made evictable, cannot be removed.
\<close>

theorem Remove_evictable_fails_assertion:
  "replacer_run (LRUKReplacer_new 7 2) [OpRecordAccess 0, OpSetEvictable 0 True, OpRemove 0]
   = Inl (AssertionFailed ''Frame ID is non-evictable.'')"
  by (simp add: LRUKReplacer_new_def RecordAccess_def SetEvictable_def Remove_def Let_def)

section \<open>Buffer pool manager\<close>

lemma static_cast_int_1 [simp]: "static_cast_int 1 = 1"
  by (simp add: static_cast_int_def)

lemma disk_log_pin_frame [simp]: "disk_log (fst (pin_frame bpm f)) = disk_log bpm"
  by (simp add: pin_frame_def set_page_def split: sum.splits)

lemma evict_victim_log:
  assumes "Evict (replacer bpm) = Inr (Some f, r)" and "valid_frame bpm f"
  shows "disk_log (fst (evict_victim bpm)) =
           disk_log bpm @
             (if is_dirty (page_at bpm f)
              then [Scheduled (write_request (page_at bpm f)), FutureGet (write_request (page_at bpm f))]
              else [])"
    and "snd (evict_victim bpm) = Inr (Some f)"
  using assms
  by (simp_all add: evict_victim_def valid_frame_def page_at_def Schedule_write_def
      future_get_def Let_def)

lemma is_write_event_simps [simp]:
  "is_write_event (Scheduled (write_request p))"
  "is_write_event (FutureGet (write_request p))"
  "\<not> is_write_event (Scheduled (read_request bpm pid))"
  "\<not> is_write_event (FutureGet (read_request bpm pid))"
  by (simp_all add: is_write_event_def write_request_def read_request_def)

text \<open>
  C8: when \<open>NewPage\<close>, or \<open>FetchPage\<close> of a page that is not resident, takes its frame
  from the replacer (the free list is empty and \<open>Evict\<close> names a victim frame of the
  pool), the write-request events the call adds to the disk log are: none when the victim's
  page is clean; when it is dirty, the scheduling of the write of the victim's page followed
  by the wait on that request's future, and nothing else.
\<close>

theorem eviction_writes_back_only_dirty_victim:
  assumes "free_list bpm = []"
    and "Evict (replacer bpm) = Inr (Some f, r)"
    and "valid_frame bpm f"
  shows "new_write_events bpm (fst (NewPage bpm)) =
           (if is_dirty (page_at bpm f)
            then [Scheduled (write_request (page_at bpm f)), FutureGet (write_request (page_at bpm f))]
            else [])
         \<and> (page_table bpm pid = None \<longrightarrow>
              new_write_events bpm (fst (FetchPage bpm pid)) =
                (if is_dirty (page_at bpm f)
                 then [Scheduled (write_request (page_at bpm f)), FutureGet (write_request (page_at bpm f))]
                 else []))"
proof -
  note ev = evict_victim_log [OF assms(2,3)]
  obtain bpm1 where b1: "evict_victim bpm = (bpm1, Inr (Some f))"
    using ev(2) by (cases "evict_victim bpm") auto
  with ev(1) have log1: "disk_log bpm1 = disk_log bpm @
             (if is_dirty (page_at bpm f)
              then [Scheduled (write_request (page_at bpm f)), FutureGet (write_request (page_at bpm f))]
              else [])" by simp
  have new: "new_write_events bpm (fst (NewPage bpm)) =
           (if is_dirty (page_at bpm f)
            then [Scheduled (write_request (page_at bpm f)), FutureGet (write_request (page_at bpm f))]
            else [])"
    using assms(1) b1 log1
    by (auto simp: NewPage_def new_write_events_def Let_def set_page_def split_beta
        split: prod.splits sum.splits)
  have fetch: "new_write_events bpm (fst (FetchPage bpm pid)) =
           (if is_dirty (page_at bpm f)
            then [Scheduled (write_request (page_at bpm f)), FutureGet (write_request (page_at bpm f))]
            else [])" if "page_table bpm pid = None"
    using assms(1) b1 log1 that
    by (auto simp: FetchPage_def new_write_events_def Let_def set_page_def split_beta future_get_def
        split: prod.splits sum.splits)
  from new fetch show ?thesis by blast
qed

lemmas example_pool_defs =
  example_pool_def BufferPoolManager_new_def NewPage_def pop_free_list_def valid_frame_def
  Let_def set_page_def page_at_def ResetMemory_def page_table_insert_def pin_frame_def
  SetEvictable_def LRUKReplacer_new_def RecordAccess_def UnpinPage_def

lemma example_pool_facts:
  "free_list (example_pool d) = []"
  "valid_frame (example_pool d) 0"
  "page_table (example_pool d) 7 = None"
  "is_dirty (page_at (example_pool d) 0) = d"
  "\<exists>r. Evict (replacer (example_pool d)) = Inr (Some 0, r)"
  by (simp_all add: example_pool_defs Evict_def list_erase_def iterator_at_def)

theorem eviction_writes_back_only_dirty_victim_witness:
  "free_list (example_pool True) = [] \<and> free_list (example_pool False) = []
   \<and> (\<exists>r. Evict (replacer (example_pool True)) = Inr (Some 0, r))
   \<and> (\<exists>r. Evict (replacer (example_pool False)) = Inr (Some 0, r))
   \<and> valid_frame (example_pool True) 0 \<and> valid_frame (example_pool False) 0
   \<and> page_table (example_pool True) 7 = None \<and> page_table (example_pool False) 7 = None
   \<and> new_write_events (example_pool True) (fst (NewPage (example_pool True))) =
        [Scheduled (write_request (page_at (example_pool True) 0)),
         FutureGet (write_request (page_at (example_pool True) 0))]
   \<and> new_write_events (example_pool True) (fst (FetchPage (example_pool True) 7)) =
        [Scheduled (write_request (page_at (example_pool True) 0)),
         FutureGet (write_request (page_at (example_pool True) 0))]
   \<and> new_write_events (example_pool False) (fst (NewPage (example_pool False))) = []
   \<and> new_write_events (example_pool False) (fst (FetchPage (example_pool False) 7)) = []"
proof -
  obtain rt where et: "Evict (replacer (example_pool True)) = Inr (Some 0, rt)"
    using example_pool_facts(5) by blast
  obtain rf where ef: "Evict (replacer (example_pool False)) = Inr (Some 0, rf)"
    using example_pool_facts(5) by blast
  from eviction_writes_back_only_dirty_victim
         [OF example_pool_facts(1) et example_pool_facts(2), of 7]
       eviction_writes_back_only_dirty_victim
         [OF example_pool_facts(1) ef example_pool_facts(2), of 7]
  show ?thesis
    by (simp add: example_pool_facts)
qed
section \<open>Page guards\<close>

text \<open>
  C5 (dropping a guard obtained from FetchPageRead or FetchPageWrite releases the latch
  and calls unpin_page exactly once for the fetched page; a second Drop is a no-op). The
  guard constructors drop both arguments, so the guard that a fetch returns holds nothing,
  whatever the pool and the page: its \<open>Drop\<close> makes no call at all. For the resident page 0
  of the example pool the fetch latches the page, and neither the first nor the second
  \<open>Drop\<close> unpins or unlatches it: \<open>UnpinPage\<close> is called zero times, not once, and the
  latch is never released.
\<close>

theorem PageGuard_Drop_after_fetch_releases_nothing:
  "ReadPageGuard_Drop (ReadPageGuard_new bpm page) = Inr (ReadPageGuard BasicPageGuard_default, [])
   \<and> WritePageGuard_Drop (WritePageGuard_new bpm page) = Inr (WritePageGuard BasicPageGuard_default, [])
   \<and> fetch_read_drop_twice (example_pool False) 0 = Inr ([RLatch_call 0], [], [])
   \<and> fetch_write_drop_twice (example_pool False) 0 = Inr ([WLatch_call 0], [], [])"
  by (simp add: ReadPageGuard_Drop_def BasicPageGuard_default_def fetch_read_drop_twice_def
      fetch_write_drop_twice_def FetchPageRead_def FetchPageWrite_def FetchPage_def
      ReadPageGuard_new_def WritePageGuard_new_def WritePageGuard_Drop_def example_pool_defs)

section \<open>Index scan executor\<close>

lemma IndexScanExecutor_Next_stuck:
  assumes "IndexScanExecutor_Next table_heap filter_predicate e = Some res"
  shows "\<not> (\<exists>rid rest. rid_cursor e = rid # rest \<and> is_deleted (GetTupleMeta table_heap rid))"
proof (rule IndexScanExecutor_Next.raw_induct
    [where P = "\<lambda>th fp e res. \<not> (\<exists>rid rest. rid_cursor e = rid # rest \<and> is_deleted (GetTupleMeta th rid))",
      OF _ assms], goal_cases)
  case (1 f th fp e res)
  show ?case
  proof
    assume "\<exists>rid rest. rid_cursor e = rid # rest \<and> is_deleted (GetTupleMeta th rid)"
    then obtain rid rest where c: "rid_cursor e = rid # rest"
      and d: "is_deleted (GetTupleMeta th rid)" by blast
    from 1(2) c d have "f th fp e = Some res" by simp
    from 1(1) [OF this] c d show False by blast
  qed
qed

text \<open>
  C4 (repeated calls to Next terminate, deleted entries are skipped). The RID list holds
  one entry whose tuple is marked deleted: the loop reads the meta, sees the deletion and
  continues without advancing the cursor, so the first call never returns.
\<close>

theorem IndexScanExecutor_Next_diverges_on_deleted:
  "IndexScanExecutor_Next
     (\<lambda>rid. (\<lparr>ts = 0, is_deleted = True\<rparr>, Tuple_of_values [IntegerValue 7]))
     (Some (\<lambda>t. BooleanValue True))
     (IndexScanExecutor_Init (Some (\<lambda>t. BooleanValue True)) [RID 0 0])
   = None"
proof (cases "IndexScanExecutor_Next
     (\<lambda>rid. (\<lparr>ts = 0, is_deleted = True\<rparr>, Tuple_of_values [IntegerValue 7]))
     (Some (\<lambda>t. BooleanValue True))
     (IndexScanExecutor_Init (Some (\<lambda>t. BooleanValue True)) [RID 0 0])")
  case None
  then show ?thesis .
next
  case (Some res)
  from IndexScanExecutor_Next_stuck [OF Some] show ?thesis
    by (simp add: IndexScanExecutor_Init_def GetTupleMeta_def Let_def)
qed

section \<open>Insert executor\<close>

lemma InsertExecutor_calls_after_first:
  "has_called e \<Longrightarrow>
     InsertExecutor_calls n InsertTuple InsertEntry temp_ts env e = replicate n None"
  by (induction n arbitrary: env) (simp_all add: InsertExecutor_Next_def Let_def)

text \<open>
  C10: with a child that produces no tuple, the first \<open>Next\<close> after \<open>Init\<close> returns true
  with the one-value tuple \<open>(INTEGER 0)\<close> and leaves the heap and the indexes as they were,
  and every call after it returns false: of any \<open>n + 1\<close> successive calls, the \<open>n\<close> after the
  first all do. And whatever the child produces, the first \<open>Next\<close> after \<open>Init\<close> does not
  return false.
\<close>

theorem InsertExecutor_Next_empty_child:
  "InsertExecutor_calls (Suc n) InsertTuple InsertEntry temp_ts env
     (InsertExecutor_Init \<lparr>has_called = hc, child_executor = child_of []\<rparr>)
     = Some (Tuple_of_values [IntegerValue 0]) # replicate n None
   \<and> fst (snd (InsertExecutor_Next InsertTuple InsertEntry temp_ts env
          (InsertExecutor_Init \<lparr>has_called = hc, child_executor = child_of []\<rparr>))) = env
   \<and> fst (InsertExecutor_Next InsertTuple InsertEntry temp_ts env (InsertExecutor_Init e)) \<noteq> None"
proof -
  let ?e = "InsertExecutor_Init \<lparr>has_called = hc, child_executor = child_of []\<rparr>"
  let ?first = "InsertExecutor_Next InsertTuple InsertEntry temp_ts env ?e"
  have first: "fst ?first = Some (Tuple_of_values [IntegerValue 0])" "fst (snd ?first) = env"
    and called: "has_called (snd (snd ?first))"
    by (simp_all add: InsertExecutor_Next_def InsertExecutor_Init_def child_of_def child_Init_def
        Let_def split_beta)
  have "InsertExecutor_calls (Suc n) InsertTuple InsertEntry temp_ts env ?e
      = fst ?first # InsertExecutor_calls n InsertTuple InsertEntry temp_ts
          (fst (snd ?first)) (snd (snd ?first))"
    by (simp add: Let_def)
  also have "\<dots> = Some (Tuple_of_values [IntegerValue 0]) # replicate n None"
    unfolding InsertExecutor_calls_after_first [OF called] first(1) ..
  finally have "InsertExecutor_calls (Suc n) InsertTuple InsertEntry temp_ts env ?e
      = Some (Tuple_of_values [IntegerValue 0]) # replicate n None" .
  moreover have "fst (InsertExecutor_Next InsertTuple InsertEntry temp_ts env (InsertExecutor_Init e))
      \<noteq> None"
    by (simp add: InsertExecutor_Next_def InsertExecutor_Init_def Let_def split_beta)
  ultimately show ?thesis using first(2) by simp
qed
section \<open>Nested-loop join executor\<close>

lemmas scenario_defs =
  scenario_calls_def NestedLoopJoinExecutor_new_def NestedLoopJoinExecutor_Init_def
  scenario_plan_def scenario_left_def scenario_right_def child_of_def child_Init_def
  child_Next_def fetch_left_def advance_left_def int_row_def CompareEquals_def IsNull_def
  GetAs_bool_def LeftJoinRemainedLeftTuple_def InnerJoinTuple_def schema_values_def
  Tuple_of_values_def Let_def numeral_3_eq_3

text \<open>
  C3, as the code runs it when \<open>current_left_has_done\<close> is false at the first \<open>Next\<close>: the
  join walks the left child in its order and, per left tuple, the right child in its order.
  For the left tuple \<open>(1)\<close> no right tuple matches, so the first call returns \<open>(1, null)\<close>;
  the second call moves to \<open>(2)\<close> and returns \<open>(2, 2)\<close>; the third call returns false. What
  \<open>left_has_next\<close> starts as does not matter.
\<close>

theorem NestedLoopJoin_left_scenario_order:
  "scenario_calls has_next0 False =
     Inr [Some [IntegerValue 1, Null INTEGER], Some [IntegerValue 2, IntegerValue 2], None]"
  by (simp add: scenario_defs)

text \<open>
  C3, as stated, fails whatever the flag starts as: the first tuple returned is
  \<open>(1, null)\<close> when it starts false, and when it starts true \<open>(2, 2)\<close> is the only tuple
  returned. In neither case is \<open>(2, 2)\<close> followed by \<open>(1, null)\<close>.
\<close>

theorem NestedLoopJoin_left_scenario_counterexample:
  "scenario_calls False False \<noteq>
     Inr [Some [IntegerValue 2, IntegerValue 2], Some [IntegerValue 1, Null INTEGER], None]
   \<and> scenario_calls False True \<noteq>
     Inr [Some [IntegerValue 2, IntegerValue 2], Some [IntegerValue 1, Null INTEGER], None]
   \<and> scenario_calls False True = Inr [Some [IntegerValue 2, IntegerValue 2], None, None]"
  by (simp add: scenario_defs)
section \<open>Extendible hash table\<close>

lemma fetched_guards_hold_nothing:
  "ReadPageGuard_As (table_FetchPageRead pid) = Inl UndefinedBehaviour"
  "WritePageGuard_AsMut (table_FetchPageWrite pid) = Inl UndefinedBehaviour"
  by (simp_all add: ReadPageGuard_As_def WritePageGuard_AsMut_def table_FetchPageRead_def
      table_FetchPageWrite_def ReadPageGuard_new_def WritePageGuard_new_def
      BasicPageGuard_default_def)

lemma int_not_INVALID_PAGE_ID: "int n \<noteq> INVALID_PAGE_ID"
  by (simp add: INVALID_PAGE_ID_def)

text \<open>
  C1 (after any sequence of Insert and Remove calls on a fresh table, GetValue finds the
  last value inserted and not removed). The constructor succeeds, on whatever page id the
  pool hands out first, and makes that page the header page. On the table it returns, every
  \<open>Insert\<close>, every \<open>Remove\<close> and every \<open>GetValue\<close> fetches the header page through a
  write or read guard; the guard holds nothing, because the guard constructors drop their
  arguments, and \<open>AsMut\<close> or \<open>As\<close> on it goes through a null page pointer. So no call
  returns: nothing is ever inserted, and no lookup returns true or false.
\<close>

theorem extendible_hash_calls_end_at_first_guard:
  "\<exists>t. DiskExtendibleHashTable_new (int n) hash_function header_depth directory_depth bucket_size
         = Inr t
       \<and> header_page_id t = int n
       \<and> Insert t key val = Some (Inl UndefinedBehaviour)
       \<and> Remove_htable t key = Inl UndefinedBehaviour
       \<and> GetValue t key result = Inl UndefinedBehaviour"
proof -
  obtain t where t: "DiskExtendibleHashTable_new (int n) hash_function header_depth
      directory_depth bucket_size = Inr (t :: ('a, 'b) DiskExtendibleHashTable)"
    and h: "header_page_id t = int n"
    by (simp add: DiskExtendibleHashTable_new_def NewPageGuarded_def BasicPageGuard_AsMut_def
        BasicPageGuard_new_def Let_def)
  have "Insert t key val = Some (Inl UndefinedBehaviour)"
    by (subst Insert.simps) (simp add: h int_not_INVALID_PAGE_ID fetched_guards_hold_nothing)
  moreover have "Remove_htable t key = Inl UndefinedBehaviour"
    by (simp add: Remove_htable_def fetched_guards_hold_nothing)
  moreover have "GetValue t key result = Inl UndefinedBehaviour"
    by (simp add: GetValue_def h int_not_INVALID_PAGE_ID fetched_guards_hold_nothing)
  ultimately show ?thesis using t h by blast
qed

text \<open>
  C9 (one call of GetValue appends at most one element: the found value with true, nothing
  with false otherwise, also when the directory or bucket page is absent). On every table
  whose header page id is one the pool can have handed out, \<open>GetValue\<close> ends at its first
  page access, \<open>As\<close> on the guard of the header page, whatever the key and the result
  vector, so it returns neither true nor false; it returns false with the vector unchanged
  only for the invalid header page id, which the constructor never leaves.
\<close>

theorem GetValue_ends_at_header_guard:
  "GetValue (t\<lparr>header_page_id := int n\<rparr>) key result = Inl UndefinedBehaviour
   \<and> GetValue (t\<lparr>header_page_id := INVALID_PAGE_ID\<rparr>) key result = Inr (False, result)"
  by (simp add: GetValue_def int_not_INVALID_PAGE_ID fetched_guards_hold_nothing)

end
